theory Spec2Isabelle
  imports Complex_Main "HOL-Library.Sublist"
begin

section \<open>Python strings, as far as the services use them\<close>

text \<open>
  A text is a Python \<open>str\<close> that comes from outside the program (a file name, a
  transcription, a prompt): the list of its code points. The strings that the program
  itself writes down, builds messages from and compares are \<open>char list\<close>; \<open>ustr\<close>
  reads such a string as a text.
\<close>

type_synonym ustring = "nat list"

definition ustr :: "string \<Rightarrow> ustring" where
  "ustr s = map of_char s"

text \<open>
  The case mappings of Python are those of the Unicode character database, which is
  not part of the program: its full lower-case and title-case mappings and the
  properties \<open>Cased\<close>, \<open>Case_Ignorable\<close> and \<open>White_Space\<close> are parameters. On
  the ASCII code points the mappings are the same in every version of the database, and
  are written out: A to Z and a to z are exchanged, every other code point below 128 is
  left as it is.
\<close>

record unicode =
  to_lower_full :: "nat \<Rightarrow> nat list"
  to_title_full :: "nat \<Rightarrow> nat list"
  is_cased :: "nat \<Rightarrow> bool"
  is_case_ignorable :: "nat \<Rightarrow> bool"
  is_space :: "nat \<Rightarrow> bool"

definition ascii_lower :: "nat \<Rightarrow> nat" where
  "ascii_lower c = (if 65 \<le> c \<and> c \<le> 90 then c + 32 else c)"

definition ascii_upper :: "nat \<Rightarrow> nat" where
  "ascii_upper c = (if 97 \<le> c \<and> c \<le> 122 then c - 32 else c)"

definition lower_full :: "unicode \<Rightarrow> nat \<Rightarrow> nat list" where
  "lower_full ud c = (if c < 128 then [ascii_lower c] else to_lower_full ud c)"

definition title_full :: "unicode \<Rightarrow> nat \<Rightarrow> nat list" where
  "title_full ud c = (if c < 128 then [ascii_upper c] else to_title_full ud c)"

text \<open>
  The capital sigma (931) is the one code point whose lower case depends on its place:
  it becomes the final sigma (962) when a cased code point comes before it, case-ignorable
  ones apart, and none comes after it in the same way, and the small sigma (963)
  otherwise. \<open>before\<close> and \<open>after\<close> are the code points of the text on its two sides.
\<close>

definition final_sigma :: "unicode \<Rightarrow> ustring \<Rightarrow> ustring \<Rightarrow> bool" where
  "final_sigma ud before after =
     (case dropWhile (is_case_ignorable ud) (rev before) of
        [] \<Rightarrow> False
      | c # cs \<Rightarrow>
          is_cased ud c \<and>
          (case dropWhile (is_case_ignorable ud) after of
             [] \<Rightarrow> True
           | d # ds \<Rightarrow> \<not> is_cased ud d))"

definition lower_ucs4 :: "unicode \<Rightarrow> ustring \<Rightarrow> nat \<Rightarrow> ustring \<Rightarrow> ustring" where
  "lower_ucs4 ud before c after =
     (if c = 931 then [if final_sigma ud before after then 962 else 963]
      else lower_full ud c)"

fun do_lower :: "unicode \<Rightarrow> ustring \<Rightarrow> ustring \<Rightarrow> ustring" where
  "do_lower ud before [] = []"
| "do_lower ud before (c # after) =
     lower_ucs4 ud before c after @ do_lower ud (before @ [c]) after"

text \<open>\<open>s.lower()\<close>\<close>

definition str_lower :: "unicode \<Rightarrow> ustring \<Rightarrow> ustring" where
  "str_lower ud s = do_lower ud [] s"

text \<open>\<open>s.capitalize()\<close>: the first code point in title case (in upper case before
  Python 3.8, which is another value of the same parameter), all the others in lower
  case.\<close>

fun capitalize :: "unicode \<Rightarrow> ustring \<Rightarrow> ustring" where
  "capitalize ud [] = []"
| "capitalize ud (c # cs) = title_full ud c @ do_lower ud [c] cs"

text \<open>\<open>s.startswith(p)\<close> and the substring test \<open>needle in haystack\<close>.\<close>

fun startswith :: "'a list \<Rightarrow> 'a list \<Rightarrow> bool" where
  "startswith s [] = True"
| "startswith [] (p # ps) = False"
| "startswith (c # cs) (p # ps) = (c = p \<and> startswith cs ps)"

fun str_contains :: "'a list \<Rightarrow> 'a list \<Rightarrow> bool" where
  "str_contains needle [] = (needle = [])"
| "str_contains needle (c # cs) = (startswith (c # cs) needle \<or> str_contains needle cs)"

text \<open>\<open>s.endswith((a, b, ...))\<close> with alternatives of one code point.\<close>

definition endswith_any :: "ustring \<Rightarrow> nat list \<Rightarrow> bool" where
  "endswith_any s alts = (s \<noteq> [] \<and> last s \<in> set alts)"

section \<open>The prompt enhancer\<close>

definition photography_keywords :: "string list" where
  "photography_keywords =
     [''professional'', ''high quality'', ''studio lighting'', ''clean background'',
      ''product photography'', ''commercial'', ''advertising'']"

definition qualifier_suffix :: string where
  "qualifier_suffix = '', professional product photography, studio lighting, clean background''"

definition has_photography_keywords :: "unicode \<Rightarrow> ustring \<Rightarrow> bool" where
  "has_photography_keywords ud enhanced_prompt =
     list_ex (\<lambda>keyword. str_contains (ustr keyword) (str_lower ud enhanced_prompt))
       photography_keywords"

definition enhance_voice_prompt :: "unicode \<Rightarrow> ustring \<Rightarrow> ustring" where
  "enhance_voice_prompt ud transcribed_text =
     (if transcribed_text = [] then []
      else
        let enhanced_prompt = transcribed_text;
            enhanced_prompt =
              (if \<not> has_photography_keywords ud enhanced_prompt
               then enhanced_prompt @ ustr qualifier_suffix else enhanced_prompt);
            enhanced_prompt = capitalize ud enhanced_prompt
        in if \<not> endswith_any enhanced_prompt (ustr ''.!?'')
           then enhanced_prompt @ ustr ''.'' else enhanced_prompt)"

section \<open>Exceptions, interface events, uploads\<close>

text \<open>
  An exception is its class and the text that \<open>str(e)\<close> gives. Every class below is a
  subclass of \<open>Exception\<close>, so \<open>except Exception\<close> catches all of them; \<open>HTTPError\<close>
  carries the status code of its response.
\<close>

datatype exn_class =
  ValueError | TypeError | AttributeError | KeyError | IndexError | FileNotFoundError
  | OSError | HTTPError nat | RuntimeError | PlainException

datatype exn = Exn (exn_class: exn_class) (str: string)

text \<open>
  The calls of the interface library that leave a message on the page. \<open>st.info\<close> and
  \<open>st.spinner\<close> only show progress and are left out of the model.
\<close>

datatype st_event =
  StError string | StWarning string | StSuccess string | StRerun

text \<open>
  An uploaded file: its declared name, a text, its MIME type and the bytes of its buffer.
  \<open>seek(0, 2)\<close> followed by \<open>tell()\<close> gives the number of bytes; the position of the
  buffer is reset by each reader and is not part of the model.
\<close>

record upload =
  name :: ustring
  mime :: string
  getvalue :: "nat list"

section \<open>\<open>os.path.splitext\<close>\<close>

text \<open>
  The standard library's \<open>posixpath.splitext\<close>: the extension starts at the last dot
  of the last path component, unless that component has only dots before it.
  \<open>rfind\<close> is \<open>str.rfind\<close> for one code point: the last index, or \<open>-1\<close>. The
  slash is the code point 47 and the dot 46.
\<close>

fun rfind :: "'a list \<Rightarrow> 'a \<Rightarrow> int" where
  "rfind [] c = - 1"
| "rfind (x # xs) c =
     (let r = rfind xs c in if 0 \<le> r then r + 1 else if x = c then 0 else - 1)"

definition splitext :: "ustring \<Rightarrow> ustring \<times> ustring" where
  "splitext p =
     (let sepIndex = rfind p 47;
          dotIndex = rfind p 46
      in if sepIndex < dotIndex \<and>
            list_ex (\<lambda>filenameIndex. p ! filenameIndex \<noteq> 46)
              [nat (sepIndex + 1) ..< nat dotIndex]
         then (take (nat dotIndex) p, drop (nat dotIndex) p)
         else (p, []))"

section \<open>Validation of an upload\<close>

definition allowed_extensions :: "string list" where
  "allowed_extensions = [''.wav'', ''.mp3'', ''.m4a'', ''.flac'', ''.ogg'']"

definition file_extension :: "unicode \<Rightarrow> upload \<Rightarrow> ustring" where
  "file_extension ud audio_file = str_lower ud (snd (splitext (name audio_file)))"

text \<open>\<open>', '.join(xs)\<close>\<close>

fun join :: "string \<Rightarrow> string list \<Rightarrow> string" where
  "join sep [] = []"
| "join sep [x] = x"
| "join sep (x # y # ys) = x @ sep @ join sep (y # ys)"

definition validate_audio_file :: "unicode \<Rightarrow> upload option \<Rightarrow> bool \<times> st_event list" where
  "validate_audio_file ud audio_file =
     (case audio_file of
        None \<Rightarrow> (False, [])
      | Some f \<Rightarrow>
          let file_size = length (getvalue f) in
          if file_size > 25 * 1024 * 1024
          then (False, [StError ''Audio file too large. Please upload a file smaller than 25MB.''])
          else if file_extension ud f \<notin> set (map ustr allowed_extensions)
          then (False, [StError (''Unsupported audio format. Please upload: ''
                                  @ join '', '' allowed_extensions)])
          else (True, []))"

section \<open>The service object and \<open>load_model\<close>\<close>

text \<open>
  A model handle records which checkpoint it was fetched from and where it has been
  placed; a processor handle records its checkpoint.
\<close>

record whisper_model =
  checkpoint :: string
  placed_on :: "string option"

record service =
  model :: "whisper_model option"
  processor :: "string option"
  model_loaded :: bool
  device :: string

definition init_service :: "bool \<Rightarrow> service" where
  "init_service cuda_is_available =
     \<lparr>model = None, processor = None, model_loaded = False,
      device = (if cuda_is_available then ''cuda:0'' else ''cpu'')\<rparr>"

text \<open>
  What the model hub and the accelerator do is outside the program: each call either
  raises or hands back the handle asked for.
\<close>

record hub =
  processor_from_pretrained :: "string \<Rightarrow> exn option"
  model_from_pretrained :: "string \<Rightarrow> exn option"
  model_to :: "whisper_model \<Rightarrow> string \<Rightarrow> exn option"

definition load_error :: "exn \<Rightarrow> st_event list" where
  "load_error e = [StError (''Error loading Whisper model: '' @ str e)]"

definition load_model :: "hub \<Rightarrow> service \<Rightarrow> string \<Rightarrow> bool \<times> service \<times> st_event list" where
  "load_model h self model_size =
     (if \<not> model_loaded self \<or> model self = None then
        let model_name = ''openai/whisper-'' @ model_size in
        case processor_from_pretrained h model_name of
          Some e \<Rightarrow> (False, self, load_error e)
        | None \<Rightarrow>
            let self = self\<lparr>processor := Some model_name\<rparr> in
            (case model_from_pretrained h model_name of
               Some e \<Rightarrow> (False, self, load_error e)
             | None \<Rightarrow>
                 let m = \<lparr>checkpoint = model_name, placed_on = None\<rparr>;
                     self = self\<lparr>model := Some m\<rparr> in
                 (case model_to h m (device self) of
                    Some e \<Rightarrow> (False, self, load_error e)
                  | None \<Rightarrow>
                      (True,
                       self\<lparr>model := Some (m\<lparr>placed_on := Some (device self)\<rparr>),
                            model_loaded := True\<rparr>,
                       [StSuccess (''Whisper '' @ model_size @ '' model loaded successfully!'')])))
      else (True, self, []))"

section \<open>Values of dictionaries and of decoded responses\<close>

datatype json =
  JNull | JBool bool | JNum real | JStr string | JArr "json list" | JObj "(string \<times> json) list"

type_synonym dict = "(string \<times> json) list"

text \<open>Python's truth value of such a value: \<open>None\<close>, \<open>False\<close>, zero and the empty
  string, list and dictionary are false.\<close>

fun truthy :: "json \<Rightarrow> bool" where
  "truthy JNull = False"
| "truthy (JBool b) = b"
| "truthy (JNum x) = (x \<noteq> 0)"
| "truthy (JStr s) = (s \<noteq> [])"
| "truthy (JArr xs) = (xs \<noteq> [])"
| "truthy (JObj kvs) = (kvs \<noteq> [])"

text \<open>\<open>d.get(k, default)\<close>\<close>

definition dict_get :: "dict \<Rightarrow> string \<Rightarrow> json \<Rightarrow> json" where
  "dict_get d k dflt = (case map_of d k of Some v \<Rightarrow> v | None \<Rightarrow> dflt)"

section \<open>Decoded audio\<close>

text \<open>
  A NumPy array of samples is one-dimensional (frames) or two-dimensional (frames by
  channels, with the number of channels kept beside the rows, as the shape of an array
  without rows still has it). A decoded signal is such an array together with the rate
  its samples were taken at. Samples are real numbers; rounding is not modelled.
\<close>

datatype ndarray = Arr1 "real list" | Arr2 nat "real list list"

record pcm =
  rate_hz :: nat
  samples :: ndarray

fun shape :: "ndarray \<Rightarrow> nat list" where
  "shape (Arr1 xs) = [length xs]"
| "shape (Arr2 c rows) = [length rows, c]"

definition mean :: "real list \<Rightarrow> real" where
  "mean xs = sum_list xs / real (length xs)"

text \<open>\<open>np.mean(a, axis=1)\<close>, called on two-dimensional arrays only.\<close>

fun np_mean_axis1 :: "ndarray \<Rightarrow> ndarray" where
  "np_mean_axis1 (Arr2 c rows) = Arr1 (map mean rows)"
| "np_mean_axis1 (Arr1 xs) = Arr1 xs"

section \<open>The world outside the service\<close>

type_synonym path = string
type_synonym filesystem = "path \<rightharpoonup> nat list"

datatype source = File path | Array ndarray

record kwargs =
  kw_language :: "string option"
  kw_verbose :: bool
  kw_word_timestamps :: "bool option"

text \<open>
  The character database and every call that leaves the program are fields. A call raises (\<open>Inl\<close>, or \<open>Some\<close> for a
  call without a result) or returns. \<open>named_temporary_file\<close> is given the names that
  exist and the suffix asked for, and names the file it creates.
  \<open>librosa.resample\<close> is taken to return for every decoded signal. It works along the
  last axis, and its result is at the target rate when the signal is at the rate it is
  told: \<open>librosa_resample\<close> below records the rate of its result in \<open>rate_hz\<close>.
\<close>

record world =
  unicode_data :: unicode
  model_hub :: hub
  cuda_is_available :: bool
  named_temporary_file :: "path set \<Rightarrow> ustring \<Rightarrow> exn + path"
  file_write :: "path \<Rightarrow> nat list \<Rightarrow> exn option"
  os_unlink :: "path \<Rightarrow> exn option"
  file_read :: "path \<Rightarrow> exn option"
  sf_read :: "nat list \<Rightarrow> exn + pcm"
  resample_samples :: "real list \<Rightarrow> nat \<Rightarrow> nat \<Rightarrow> real list"
  processor_call :: "ndarray \<Rightarrow> nat \<Rightarrow> exn + nat list"
  generate :: "whisper_model \<Rightarrow> nat list \<Rightarrow> string option \<Rightarrow> exn + nat list list"
  batch_decode :: "nat list list \<Rightarrow> exn + ustring list"
  librosa_load :: "nat list \<Rightarrow> nat \<Rightarrow> exn + ndarray"
  sf_write :: "ndarray \<Rightarrow> nat \<Rightarrow> exn + nat list"
  model_transcribe :: "whisper_model \<Rightarrow> source \<Rightarrow> kwargs \<Rightarrow> exn + dict"

definition librosa_resample :: "world \<Rightarrow> pcm \<Rightarrow> nat \<Rightarrow> nat \<Rightarrow> pcm" where
  "librosa_resample w y orig_sr target_sr =
     \<lparr>rate_hz = rate_hz y * target_sr div orig_sr,
      samples =
        (case samples y of
           Arr1 xs \<Rightarrow> Arr1 (resample_samples w xs orig_sr target_sr)
         | Arr2 c rows \<Rightarrow>
             Arr2 (length (resample_samples w (replicate c 0) orig_sr target_sr))
               (map (\<lambda>row. resample_samples w row orig_sr target_sr) rows))\<rparr>"

section \<open>\<open>transcribe_audio\<close>: the statements up to the first \<open>except\<close>\<close>

text \<open>Reading the temporary file, the downmix and the resampling.\<close>

definition to_mono :: "pcm \<Rightarrow> pcm" where
  "to_mono audio_data =
     (if length (shape (samples audio_data)) > 1 \<and> shape (samples audio_data) ! 1 > 1
      then audio_data\<lparr>samples := np_mean_axis1 (samples audio_data)\<rparr>
      else audio_data)"

definition read_and_normalize :: "world \<Rightarrow> filesystem \<Rightarrow> path \<Rightarrow> exn + pcm" where
  "read_and_normalize w fs tmp_path =
     (case fs tmp_path of
        None \<Rightarrow> Inl (Exn RuntimeError (''Error opening '' @ tmp_path))
      | Some bytes \<Rightarrow>
          (case sf_read w bytes of
             Inl e \<Rightarrow> Inl e
           | Inr decoded \<Rightarrow>
               let sample_rate = rate_hz decoded;
                   audio_data = to_mono decoded;
                   audio_data =
                     (if sample_rate \<noteq> 16000
                      then librosa_resample w audio_data sample_rate 16000
                      else audio_data)
               in Inr audio_data))"

text \<open>The processor, the generation and the decoding of the token ids.\<close>

definition py_or :: "string option \<Rightarrow> string option" where
  "py_or language = (case language of None \<Rightarrow> None | Some l \<Rightarrow> if l = [] then None else Some l)"

definition run_model :: "world \<Rightarrow> service \<Rightarrow> pcm \<Rightarrow> string option \<Rightarrow> exn + ustring" where
  "run_model w self audio_data language =
     (case processor self of
        None \<Rightarrow> Inl (Exn TypeError ''NoneType object is not callable'')
      | Some p \<Rightarrow>
          (case processor_call w (samples audio_data) 16000 of
             Inl e \<Rightarrow> Inl e
           | Inr input_features \<Rightarrow>
               let generate_kwargs = py_or language in
               (case model self of
                  None \<Rightarrow> Inl (Exn AttributeError ''NoneType object has no attribute generate'')
                | Some m \<Rightarrow>
                    (case generate w m input_features generate_kwargs of
                       Inl e \<Rightarrow> Inl e
                     | Inr predicted_ids \<Rightarrow>
                         (case batch_decode w predicted_ids of
                            Inl e \<Rightarrow> Inl e
                          | Inr [] \<Rightarrow> Inl (Exn IndexError ''list index out of range'')
                          | Inr (transcription # _) \<Rightarrow> Inr transcription)))))"

definition transcription_error :: "exn \<Rightarrow> ustring \<times> dict" where
  "transcription_error e = ([], [(''error'', JStr (''Error during transcription: '' @ str e))])"

definition transcription_info :: "service \<Rightarrow> string option \<Rightarrow> dict" where
  "transcription_info self language =
     [(''language'', JStr (case py_or language of Some l \<Rightarrow> l | None \<Rightarrow> ''auto-detected'')),
      (''model'', JStr ''openai/whisper''),
      (''device'', JStr (device self))]"

text \<open>
  The first \<open>try\<close> statement. Its result is \<open>Some\<close> of what a \<open>return\<close> inside it
  gives, and would be \<open>None\<close> if control left the statement at its end. The temporary
  file is created and written before the inner \<open>try\<close> is entered; the \<open>finally\<close> of the
  inner \<open>try\<close> unlinks it and ignores an exception of the unlink.
\<close>

definition first_try ::
  "world \<Rightarrow> service \<Rightarrow> filesystem \<Rightarrow> upload \<Rightarrow> string option \<Rightarrow> (ustring \<times> dict) option \<times> filesystem"
where
  "first_try w self fs audio_file language =
     (case named_temporary_file w (dom fs) (snd (splitext (name audio_file))) of
        Inl e \<Rightarrow> (Some (transcription_error e), fs)
      | Inr tmp_path \<Rightarrow>
          let fs = fs(tmp_path \<mapsto> []) in
          (case file_write w tmp_path (getvalue audio_file) of
             Some e \<Rightarrow> (Some (transcription_error e), fs)
           | None \<Rightarrow>
               let fs = fs(tmp_path \<mapsto> getvalue audio_file);
                   outcome =
                     (case read_and_normalize w fs tmp_path of
                        Inl e \<Rightarrow> Inl e
                      | Inr audio_data \<Rightarrow> run_model w self audio_data language);
                   fs = (case os_unlink w tmp_path of
                           None \<Rightarrow> fs(tmp_path := None)
                         | Some e \<Rightarrow> fs)
               in (case outcome of
                     Inr transcription \<Rightarrow>
                       (Some (transcription, transcription_info self language), fs)
                   | Inl e \<Rightarrow> (Some (transcription_error e), fs))))"

section \<open>\<open>transcribe_audio\<close>: the statements after the first \<open>except\<close>\<close>

text \<open>
  Each attempt is recorded where the source announces it, before the call on the model
  is evaluated.
\<close>

datatype attempt = FileAttempt | ArrayAttempt | CpuAttempt

definition transcribe_call :: "world \<Rightarrow> service \<Rightarrow> source \<Rightarrow> kwargs \<Rightarrow> exn + dict" where
  "transcribe_call w self src kw =
     (case model self of
        None \<Rightarrow> Inl (Exn AttributeError ''NoneType object has no attribute transcribe'')
      | Some m \<Rightarrow> model_transcribe w m src kw)"

text \<open>Method 2, entered only when an array is at hand.\<close>

definition array_method ::
  "world \<Rightarrow> service \<Rightarrow> ndarray option \<Rightarrow> string option \<Rightarrow> dict option \<times> attempt list \<times> st_event list"
where
  "array_method w self audio_array language =
     (case audio_array of
        None \<Rightarrow> (None, [], [])
      | Some a \<Rightarrow>
          (case transcribe_call w self (Array a)
                  \<lparr>kw_language = py_or language, kw_verbose = False, kw_word_timestamps = None\<rparr> of
             Inr result \<Rightarrow>
               (Some result, [ArrayAttempt], [StSuccess ''Array-based transcription successful!''])
           | Inl array_error \<Rightarrow>
               (None, [ArrayAttempt],
                [StWarning (''Array-based transcription failed: '' @ str array_error)])))"

text \<open>Method 3: the model is moved to the processor when an accelerator is present,
  and the file is tried again, verbosely.\<close>

definition cpu_method ::
  "world \<Rightarrow> service \<Rightarrow> path \<Rightarrow> string option \<Rightarrow> (exn + dict) \<times> service \<times> st_event list"
where
  "cpu_method w self tmp_file_path language =
     (let all_failed = (\<lambda>final_error.
            [StError (''All transcription methods failed. Final error: '' @ str final_error)]);
          moved =
            (if cuda_is_available w then
               (case model self of
                  None \<Rightarrow> Inl (Exn AttributeError ''NoneType object has no attribute to'')
                | Some m \<Rightarrow>
                    (case model_to (model_hub w) m ''cpu'' of
                       Some e \<Rightarrow> Inl e
                     | None \<Rightarrow> Inr (self\<lparr>model := Some (m\<lparr>placed_on := Some ''cpu''\<rparr>)\<rparr>)))
             else Inr self)
      in case moved of
           Inl final_error \<Rightarrow> (Inl final_error, self, all_failed final_error)
         | Inr self \<Rightarrow>
             (case transcribe_call w self (File tmp_file_path)
                     \<lparr>kw_language = py_or language, kw_verbose = True,
                      kw_word_timestamps = (if py_or language = None then Some False else None)\<rparr> of
                Inr result \<Rightarrow>
                  (Inr result, self, [StSuccess ''Verbose mode transcription successful!''])
              | Inl final_error \<Rightarrow> (Inl final_error, self, all_failed final_error)))"

text \<open>The cascade of the three methods. \<open>Inl\<close> is the exception that the last method
  raises again.\<close>

definition multi_method_transcription ::
  "world \<Rightarrow> service \<Rightarrow> path \<Rightarrow> ndarray option \<Rightarrow> string option
     \<Rightarrow> (exn + dict) \<times> service \<times> attempt list \<times> st_event list"
where
  "multi_method_transcription w self tmp_file_path audio_array language =
     (case transcribe_call w self (File tmp_file_path)
             \<lparr>kw_language = py_or language, kw_verbose = False, kw_word_timestamps = None\<rparr> of
        Inr result \<Rightarrow>
          (Inr result, self, [FileAttempt], [StSuccess ''File-based transcription successful!''])
      | Inl file_error \<Rightarrow>
          (let ev1 = [StWarning (''File-based transcription failed: '' @ str file_error)] in
           case array_method w self audio_array language of
             (Some result, tr2, ev2) \<Rightarrow> (Inr result, self, FileAttempt # tr2, ev1 @ ev2)
           | (None, tr2, ev2) \<Rightarrow>
               (case cpu_method w self tmp_file_path language of
                  (outcome, self, ev3) \<Rightarrow>
                    (outcome, self, FileAttempt # tr2 @ [CpuAttempt], ev1 @ ev2 @ ev3))))"

text \<open>\<open>str.strip()\<close>: white space is removed at both ends. Below 128 the white space is
  the code points 9 to 13 and 28 to 32.\<close>

definition py_isspace :: "unicode \<Rightarrow> nat \<Rightarrow> bool" where
  "py_isspace ud c =
     (if c < 128 then (9 \<le> c \<and> c \<le> 13) \<or> (28 \<le> c \<and> c \<le> 32) else is_space ud c)"

definition str_strip :: "unicode \<Rightarrow> ustring \<Rightarrow> ustring" where
  "str_strip ud s = rev (dropWhile (py_isspace ud) (rev (dropWhile (py_isspace ud) s)))"

text \<open>The preprocessing with \<open>librosa\<close>: the path to transcribe, the array when there is
  one, the file system and the warning of a failure.\<close>

definition preprocess ::
  "world \<Rightarrow> filesystem \<Rightarrow> path \<Rightarrow> nat list \<Rightarrow> path \<times> ndarray option \<times> filesystem \<times> st_event list"
where
  "preprocess w fs original_tmp_path content =
     (let failed = (\<lambda>preprocess_error fs.
            (original_tmp_path, None, fs,
             [StWarning (''Audio preprocessing failed: '' @ str preprocess_error)]))
      in case librosa_load w content 16000 of
           Inl e \<Rightarrow> failed e fs
         | Inr audio_array \<Rightarrow>
             let sample_rate = 16000 in
             (case named_temporary_file w (dom fs) (ustr ''.wav'') of
                Inl e \<Rightarrow> failed e fs
              | Inr tmp_file_path \<Rightarrow>
                  let fs = fs(tmp_file_path \<mapsto> []) in
                  (case sf_write w audio_array sample_rate of
                     Inl e \<Rightarrow> failed e fs
                   | Inr encoded \<Rightarrow>
                       (tmp_file_path, Some audio_array, fs(tmp_file_path \<mapsto> encoded), []))))"

text \<open>The \<open>finally\<close> clause: each path that is set and exists is unlinked, an error of the
  unlink ignored.\<close>

fun cleanup :: "world \<Rightarrow> filesystem \<Rightarrow> path option list \<Rightarrow> filesystem" where
  "cleanup w fs [] = fs"
| "cleanup w fs (temp_path # rest) =
     cleanup w
       (case temp_path of
          None \<Rightarrow> fs
        | Some p \<Rightarrow>
            if p \<noteq> [] \<and> p \<in> dom fs
            then (case os_unlink w p of None \<Rightarrow> fs(p := None) | Some e \<Rightarrow> fs)
            else fs)
       rest"

definition second_try ::
  "world \<Rightarrow> service \<Rightarrow> filesystem \<Rightarrow> upload \<Rightarrow> string option
     \<Rightarrow> (ustring \<times> dict) \<times> service \<times> filesystem \<times> attempt list \<times> st_event list"
where
  "second_try w self fs audio_file language =
     (let failed = (\<lambda>e self fs paths tr ev.
            (([], []), self, cleanup w fs paths, tr,
             ev @ [StError (''Error transcribing audio: '' @ str e)]))
      in case named_temporary_file w (dom fs) (ustr ''.wav'') of
           Inl e \<Rightarrow> failed e self fs [None, None] [] []
         | Inr original_tmp_path \<Rightarrow>
             let audio_data = getvalue audio_file;
                 fs = fs(original_tmp_path \<mapsto> [])
             in
             (case file_write w original_tmp_path audio_data of
                Some e \<Rightarrow> failed e self fs [None, None] [] []
              | None \<Rightarrow>
                  let fs = fs(original_tmp_path \<mapsto> audio_data) in
                  (case fs original_tmp_path of
                     None \<Rightarrow>
                       failed (Exn FileNotFoundError
                                 (''Temporary file was not created: '' @ original_tmp_path))
                         self fs [Some original_tmp_path, None] [] []
                   | Some content \<Rightarrow>
                       if length content = 0
                       then failed (Exn ValueError ''Temporary file is empty'')
                              self fs [Some original_tmp_path, None] [] []
                       else
                         (case preprocess w fs original_tmp_path content of
                            (tmp_file_path, audio_array, fs, ev0) \<Rightarrow>
                              let paths = [Some original_tmp_path, Some tmp_file_path] in
                              (case multi_method_transcription w self tmp_file_path audio_array language of
                                 (Inl e, self, tr, ev) \<Rightarrow> failed e self fs paths tr (ev0 @ ev)
                               | (Inr result, self, tr, ev) \<Rightarrow>
                                   (case map_of result ''text'' of
                                      None \<Rightarrow> failed (Exn KeyError ''text'') self fs paths tr (ev0 @ ev)
                                    | Some (JStr text) \<Rightarrow>
                                        ((str_strip (unicode_data w) (ustr text),
                                          [(''language'', dict_get result ''language'' (JStr ''unknown'')),
                                           (''confidence'', dict_get result ''avg_logprob'' (JNum 0)),
                                           (''duration'', dict_get result ''duration'' (JNum 0))]),
                                         self, cleanup w fs paths, tr, ev0 @ ev)
                                    | Some other \<Rightarrow>
                                        failed (Exn AttributeError ''object has no attribute strip'')
                                          self fs paths tr (ev0 @ ev)))))))"

section \<open>\<open>transcribe_audio\<close>\<close>

text \<open>
  The whole method: the model is loaded when it is not, with the default size; then the
  first \<open>try\<close> statement runs, and the statements after it run only if it does not
  return.
\<close>

definition transcribe_audio ::
  "world \<Rightarrow> service \<Rightarrow> filesystem \<Rightarrow> upload \<Rightarrow> string option
     \<Rightarrow> (ustring \<times> dict) \<times> service \<times> filesystem \<times> attempt list \<times> st_event list"
where
  "transcribe_audio w self fs audio_file language =
     (case (if \<not> model_loaded self then load_model (model_hub w) self ''base''
            else (True, self, [])) of
        (loaded, self, ev) \<Rightarrow>
          if \<not> loaded
          then (([], [(''error'', JStr ''Failed to load Whisper model'')]), self, fs, [], ev)
          else
            (case first_try w self fs audio_file language of
               (Some r, fs) \<Rightarrow> (r, self, fs, [], ev)
             | (None, fs) \<Rightarrow>
                 (case second_try w self fs audio_file language of
                    (r, self, fs, tr, ev2) \<Rightarrow> (r, self, fs, tr, ev @ ev2))))"

section \<open>The transcription button of the page\<close>

text \<open>
  The part of the session state that the button writes, and the calls on the service
  that it makes. The pictographs that open the messages of the page are left out.
\<close>

record session =
  voice_original_prompt :: ustring
  voice_enhanced_prompt :: ustring
  voice_transcription_info :: dict
  voice_audio_uploaded :: bool
  original_prompt :: "ustring option"
  enhanced_prompt :: "ustring option"

datatype service_call = CallValidate | CallLoadModel | CallTranscribe | CallEnhance

record page =
  the_service :: service
  the_files :: filesystem
  the_session :: session
  calls :: "service_call list"
  shown :: "st_event list"

definition transcribe_button ::
  "world \<Rightarrow> page \<Rightarrow> upload option \<Rightarrow> bool \<Rightarrow> string \<Rightarrow> string option \<Rightarrow> page"
where
  "transcribe_button w pg uploaded_audio clicked model_size selected_language =
     (case uploaded_audio of
        None \<Rightarrow> pg
      | Some f \<Rightarrow>
          if \<not> clicked then pg
          else
            (case validate_audio_file (unicode_data w) uploaded_audio of
               (valid, ev) \<Rightarrow>
                 let pg = pg\<lparr>calls := calls pg @ [CallValidate], shown := shown pg @ ev\<rparr> in
                 if \<not> valid
                 then pg\<lparr>shown := shown pg @
                        [StError ''Invalid audio file. Please check the file format and size.'']\<rparr>
                 else
                   (case load_model (model_hub w) (the_service pg) model_size of
                      (loaded, self, ev1) \<Rightarrow>
                        let pg = pg\<lparr>the_service := self, calls := calls pg @ [CallLoadModel],
                                     shown := shown pg @ ev1\<rparr> in
                        if \<not> loaded
                        then pg\<lparr>shown := shown pg @
                               [StError ''Failed to load Whisper model. Please try again.'']\<rparr>
                        else
                          (case transcribe_audio w self (the_files pg) f selected_language of
                             ((transcribed_text, info), self, fs, tr, ev2) \<Rightarrow>
                               let pg = pg\<lparr>the_service := self, the_files := fs,
                                            calls := calls pg @ [CallTranscribe],
                                            shown := shown pg @ ev2\<rparr> in
                               if transcribed_text \<noteq> [] then
                                 let enhanced = enhance_voice_prompt (unicode_data w) transcribed_text in
                                 pg\<lparr>the_session := (the_session pg)
                                        \<lparr>voice_original_prompt := transcribed_text,
                                         voice_enhanced_prompt := enhanced,
                                         voice_transcription_info := info,
                                         voice_audio_uploaded := True,
                                         original_prompt := Some transcribed_text,
                                         enhanced_prompt := Some enhanced\<rparr>,
                                    calls := calls pg @ [CallEnhance],
                                    shown := shown pg @
                                      [StSuccess ''Audio transcribed successfully!'', StRerun]\<rparr>
                               else
                                 pg\<lparr>shown := shown pg @
                                      [StError ''Failed to transcribe audio. Please try again.'']\<rparr>))))"

section \<open>The image URL in the response of the generation\<close>

text \<open>\<open>v[0]\<close> on a value that is known to be true.\<close>

fun index0 :: "json \<Rightarrow> exn + json" where
  "index0 (JArr (x # xs)) = Inr x"
| "index0 (JArr []) = Inl (Exn IndexError ''list index out of range'')"
| "index0 (JStr (c # cs)) = Inr (JStr [c])"
| "index0 (JStr []) = Inl (Exn IndexError ''string index out of range'')"
| "index0 (JObj kvs) = Inl (Exn KeyError ''0'')"
| "index0 v = Inl (Exn TypeError ''object is not subscriptable'')"

text \<open>The two keys looked at inside \<open>result\<close>: \<open>urls\<close> first, then \<open>url\<close>.\<close>

definition url_of_entry :: "dict \<Rightarrow> exn + json" where
  "url_of_entry entry =
     (case map_of entry ''urls'' of
        Some urls \<Rightarrow>
          if truthy urls then index0 urls
          else (case map_of entry ''url'' of Some u \<Rightarrow> Inr u | None \<Rightarrow> Inr JNull)
      | None \<Rightarrow> (case map_of entry ''url'' of Some u \<Rightarrow> Inr u | None \<Rightarrow> Inr JNull))"

definition url_in_result :: "json \<Rightarrow> exn + json" where
  "url_in_result r =
     (case r of
        JArr (first_result # rest) \<Rightarrow>
          (case first_result of JObj entry \<Rightarrow> url_of_entry entry | _ \<Rightarrow> Inr JNull)
      | JObj entry \<Rightarrow> url_of_entry entry
      | _ \<Rightarrow> Inr JNull)"

definition url_outside_result :: "dict \<Rightarrow> exn + json" where
  "url_outside_result d =
     (case map_of d ''result_url'' of
        Some u \<Rightarrow> Inr u
      | None \<Rightarrow>
          (case map_of d ''url'' of
             Some u \<Rightarrow> Inr u
           | None \<Rightarrow>
               (case map_of d ''result_urls'' of
                  Some us \<Rightarrow> if truthy us then index0 us else Inr JNull
                | None \<Rightarrow> Inr JNull)))"

text \<open>The value of \<open>image_url\<close> after the nested tests; \<open>JNull\<close> is \<open>None\<close>.\<close>

definition extract_image_url :: "json \<Rightarrow> exn + json" where
  "extract_image_url result =
     (if truthy result then
        (case result of
           JObj d \<Rightarrow>
             (case map_of d ''result'' of
                Some r \<Rightarrow> if truthy r then url_in_result r else url_outside_result d
              | None \<Rightarrow> url_outside_result d)
         | _ \<Rightarrow> Inr JNull)
      else Inr JNull)"

record generated_image =
  url :: json
  prompt :: ustring
  source_tag :: string
  timestamp :: real

text \<open>What the page does with the response: the list of generated images and the
  message shown.\<close>

definition show_generation ::
  "json \<Rightarrow> ustring \<Rightarrow> real \<Rightarrow> generated_image list \<Rightarrow> generated_image list \<times> st_event list"
where
  "show_generation result current_enhanced_prompt now generated_images =
     (case extract_image_url result of
        Inl e \<Rightarrow> (generated_images, [StError (''Error generating image: '' @ str e)])
      | Inr image_url \<Rightarrow>
          if truthy image_url
          then (generated_images @
                  [\<lparr>url = image_url, prompt = current_enhanced_prompt,
                    source_tag = ''voice'', timestamp = now\<rparr>],
                [StSuccess ''Image generated successfully from your voice!''])
          else (generated_images, [StError ''Failed to generate image. Please try again.'']))"

text \<open>
  The reading of the response that the specification words: five shapes, tried in
  order, the first that matches giving the URL.
\<close>

definition shape_result_urls :: "json \<Rightarrow> json option" where
  "shape_result_urls r =
     (case r of
        JObj d \<Rightarrow>
          (case map_of d ''result'' of
             Some (JArr (JObj entry # rest)) \<Rightarrow>
               (case map_of entry ''urls'' of Some (JArr (u # us)) \<Rightarrow> Some u | _ \<Rightarrow> None)
           | _ \<Rightarrow> None)
      | _ \<Rightarrow> None)"

definition shape_result_url :: "json \<Rightarrow> json option" where
  "shape_result_url r =
     (case r of
        JObj d \<Rightarrow>
          (case map_of d ''result'' of
             Some (JArr (JObj entry # rest)) \<Rightarrow> map_of entry ''url''
           | _ \<Rightarrow> None)
      | _ \<Rightarrow> None)"

definition shape_key :: "string \<Rightarrow> json \<Rightarrow> json option" where
  "shape_key k r = (case r of JObj d \<Rightarrow> map_of d k | _ \<Rightarrow> None)"

definition shape_key_list :: "string \<Rightarrow> json \<Rightarrow> json option" where
  "shape_key_list k r =
     (case r of
        JObj d \<Rightarrow> (case map_of d k of Some (JArr (u # us)) \<Rightarrow> Some u | _ \<Rightarrow> None)
      | _ \<Rightarrow> None)"

definition spec_shapes :: "(json \<Rightarrow> json option) list" where
  "spec_shapes =
     [shape_result_urls, shape_result_url, shape_key ''result_url'', shape_key ''url'',
      shape_key_list ''result_urls'']"

fun first_match :: "(json \<Rightarrow> json option) list \<Rightarrow> json \<Rightarrow> json option" where
  "first_match [] r = None"
| "first_match (m # ms) r = (case m r of Some u \<Rightarrow> Some u | None \<Rightarrow> first_match ms r)"

section \<open>The background removal service\<close>

text \<open>
  A response of the HTTP library: what \<open>raise_for_status()\<close> does, and what \<open>json()\<close>
  gives. A request is the address and the body posted. The network decides what a
  request meets; the base-64 text of the image bytes is computed by the standard library
  and is a parameter here. The response of an \<open>HTTPError\<close> is false in Python's sense,
  so the message built for a status other than 404 ends after the dash.
\<close>

record http_response =
  raise_for_status :: "exn option"
  json_body :: "exn + json"

record request =
  address :: string
  body :: dict

record network =
  post :: "request \<Rightarrow> exn + http_response"
  b64encode :: "nat list \<Rightarrow> string"

text \<open>\<open>k in v\<close> and \<open>v[k]\<close> for a decoded body \<open>v\<close> and a string \<open>k\<close>.\<close>

fun py_in :: "string \<Rightarrow> json \<Rightarrow> exn + bool" where
  "py_in k (JObj d) = Inr (map_of d k \<noteq> None)"
| "py_in k (JArr xs) = Inr (JStr k \<in> set xs)"
| "py_in k (JStr s) = Inr (str_contains k s)"
| "py_in k v = Inl (Exn TypeError ''argument is not iterable'')"

fun py_item :: "json \<Rightarrow> string \<Rightarrow> exn + json" where
  "py_item (JObj d) k = (case map_of d k of Some v \<Rightarrow> Inr v | None \<Rightarrow> Inl (Exn KeyError k))"
| "py_item v k = Inl (Exn TypeError ''indices must be integers'')"

text \<open>The shapes of a body are brought to the one with \<open>result_url\<close>.\<close>

definition handle_formats :: "json \<Rightarrow> exn + json" where
  "handle_formats result =
     (case py_in ''result_url'' result of
        Inl e \<Rightarrow> Inl e
      | Inr True \<Rightarrow> Inr result
      | Inr False \<Rightarrow>
          (case py_in ''urls'' result of
             Inl e \<Rightarrow> Inl e
           | Inr has_urls \<Rightarrow>
               (case (if has_urls then py_item result ''urls'' else Inr JNull) of
                  Inl e \<Rightarrow> Inl e
                | Inr urls \<Rightarrow>
                    (case (has_urls, urls) of
                       (True, JArr (u # us)) \<Rightarrow> Inr (JObj [(''result_url'', u)])
                     | _ \<Rightarrow>
                         (case py_in ''url'' result of
                            Inl e \<Rightarrow> Inl e
                          | Inr True \<Rightarrow>
                              (case py_item result ''url'' of
                                 Inl e \<Rightarrow> Inl e
                               | Inr u \<Rightarrow> Inr (JObj [(''result_url'', u)]))
                          | Inr False \<Rightarrow> Inr result)))))"

definition request_data :: "network \<Rightarrow> nat list option \<Rightarrow> string option \<Rightarrow> bool \<Rightarrow> dict option" where
  "request_data net image_data image_url content_moderation =
     (let data = [(''content_moderation'', JBool content_moderation)] in
      if image_url \<noteq> None \<and> image_url \<noteq> Some []
      then Some (data @ [(''image_url'', JStr (the image_url))])
      else if image_data \<noteq> None \<and> image_data \<noteq> Some []
      then Some (data @ [(''file'', JStr (b64encode net (the image_data)))])
      else None)"

definition post_and_decode :: "network \<Rightarrow> request \<Rightarrow> exn + json" where
  "post_and_decode net rq =
     (case post net rq of
        Inl e \<Rightarrow> Inl e
      | Inr response \<Rightarrow>
          (case raise_for_status response of
             Some e \<Rightarrow> Inl e
           | None \<Rightarrow>
               (case json_body response of
                  Inl e \<Rightarrow> Inl e
                | Inr result \<Rightarrow> handle_formats result)))"

definition remove_background_fallback ::
  "network \<Rightarrow> string \<Rightarrow> nat list option \<Rightarrow> string option \<Rightarrow> bool \<Rightarrow> (exn + json) \<times> request list"
where
  "remove_background_fallback net api_key image_data image_url content_moderation =
     (let data = (case request_data net image_data image_url content_moderation of
                    Some d \<Rightarrow> d
                  | None \<Rightarrow> [(''content_moderation'', JBool content_moderation)]);
          rq = \<lparr>address = ''https://engine.prod.bria-api.com/v1/erase_background'', body = data\<rparr>
      in case post_and_decode net rq of
           Inr result \<Rightarrow> (Inr result, [rq])
         | Inl e \<Rightarrow>
             (Inl (Exn PlainException (''Background removal fallback failed: '' @ str e)), [rq]))"

definition remove_background ::
  "network \<Rightarrow> string \<Rightarrow> nat list option \<Rightarrow> string option \<Rightarrow> bool \<Rightarrow> (exn + json) \<times> request list"
where
  "remove_background net api_key image_data image_url content_moderation =
     (case request_data net image_data image_url content_moderation of
        None \<Rightarrow> (Inl (Exn ValueError ''Either image_data or image_url must be provided''), [])
      | Some data \<Rightarrow>
          let rq = \<lparr>address = ''https://engine.prod.bria-api.com/v1/background/remove'', body = data\<rparr>
          in (case post_and_decode net rq of
               Inr result \<Rightarrow> (Inr result, [rq])
             | Inl e \<Rightarrow>
                 (case exn_class e of
                    HTTPError status_code \<Rightarrow>
                      if status_code = 404
                      then (case remove_background_fallback net api_key image_data image_url
                                   content_moderation of
                              (outcome, sent) \<Rightarrow> (outcome, rq # sent))
                      else (Inl (Exn PlainException
                                   (''Background removal failed: '' @ str e @ '' - '')), [rq])
                  | _ \<Rightarrow>
                      (Inl (Exn PlainException (''Background removal failed: '' @ str e)), [rq]))))"

section \<open>\<open>SpeechToTextService.transcribe\<close>\<close>

text \<open>
  The file at \<open>audio_path\<close> is read, transcribed and, in the \<open>finally\<close> clause, removed
  when it exists; an exception of the removal is printed and dropped.
\<close>

definition stt_text :: "dict \<Rightarrow> exn + json" where
  "stt_text result =
     (let text = dict_get result ''text'' JNull in
      if truthy text \<and> (case text of JNum x \<Rightarrow> True | JBool b \<Rightarrow> True | _ \<Rightarrow> False)
      then Inl (Exn TypeError ''object has no len()'')
      else Inr text)"

definition stt_transcribe ::
  "world \<Rightarrow> whisper_model \<Rightarrow> filesystem \<Rightarrow> path \<Rightarrow> (exn + json) \<times> filesystem"
where
  "stt_transcribe w stt_model fs audio_path =
     (if audio_path \<notin> dom fs
      then (Inl (Exn FileNotFoundError (''Audio file not found at path: '' @ audio_path)), fs)
      else
        let outcome =
              (case file_read w audio_path of
                 Some e \<Rightarrow> Inl e
               | None \<Rightarrow>
                   (case model_transcribe w stt_model (File audio_path)
                           \<lparr>kw_language = None, kw_verbose = False, kw_word_timestamps = None\<rparr> of
                      Inl e \<Rightarrow> Inl e
                    | Inr result \<Rightarrow> stt_text result));
            fs = (if audio_path \<in> dom fs
                  then (case os_unlink w audio_path of None \<Rightarrow> fs(audio_path := None) | Some e \<Rightarrow> fs)
                  else fs)
        in (case outcome of
              Inr text \<Rightarrow> (Inr text, fs)
            | Inl e \<Rightarrow> (Inl (Exn PlainException (''Error transcribing audio: '' @ str e)), fs)))"

section \<open>Notions used in the statements\<close>

text \<open>A model of the given size is resident: the flag is set and the model held was
  fetched from the checkpoint of that size.\<close>

definition resident :: "service \<Rightarrow> string \<Rightarrow> bool" where
  "resident self model_size =
     (model_loaded self \<and>
      (case model self of None \<Rightarrow> False | Some m \<Rightarrow> checkpoint m = ''openai/whisper-'' @ model_size))"

text \<open>The service after the loading that opens \<open>transcribe_audio\<close>, and whether that
  loading left a model.\<close>

definition loaded_service :: "world \<Rightarrow> service \<Rightarrow> service" where
  "loaded_service w self =
     (if model_loaded self then self else fst (snd (load_model (model_hub w) self ''base'')))"

definition load_ok :: "world \<Rightarrow> service \<Rightarrow> bool" where
  "load_ok w self = (model_loaded self \<or> fst (load_model (model_hub w) self ''base''))"

text \<open>
  What the statements of the first \<open>try\<close> come to before its handlers run: the
  transcription, or the exception raised by the creation of the temporary file, the
  writing, the reading, the processor, the generation or the decoding.
\<close>

definition attempt :: "world \<Rightarrow> service \<Rightarrow> filesystem \<Rightarrow> upload \<Rightarrow> string option \<Rightarrow> exn + ustring" where
  "attempt w self fs audio_file language =
     (case named_temporary_file w (dom fs) (snd (splitext (name audio_file))) of
        Inl e \<Rightarrow> Inl e
      | Inr tmp_path \<Rightarrow>
          (case file_write w tmp_path (getvalue audio_file) of
             Some e \<Rightarrow> Inl e
           | None \<Rightarrow>
               (case read_and_normalize w (fs(tmp_path \<mapsto> getvalue audio_file)) tmp_path of
                  Inl e \<Rightarrow> Inl e
                | Inr audio_data \<Rightarrow> run_model w self audio_data language)))"

text \<open>
  What the sound file library hands back: a one-dimensional array for one channel, a
  two-dimensional one for two channels or more. The mean over the channels of each
  frame is what a downmix to one channel is to give.
\<close>

definition soundfile_shape :: "ndarray \<Rightarrow> bool" where
  "soundfile_shape a = (case a of Arr1 xs \<Rightarrow> True | Arr2 c rows \<Rightarrow> 2 \<le> c)"

fun channel_mean :: "ndarray \<Rightarrow> real list" where
  "channel_mean (Arr1 xs) = xs"
| "channel_mean (Arr2 c rows) = map mean rows"

section \<open>Example values\<close>

definition quiet_hub :: hub where
  "quiet_hub = \<lparr>processor_from_pretrained = (\<lambda>n. None), model_from_pretrained = (\<lambda>n. None),
                 model_to = (\<lambda>m d. None)\<rparr>"

definition base_service :: service where
  "base_service =
     \<lparr>model = Some \<lparr>checkpoint = ''openai/whisper-base'', placed_on = Some ''cpu''\<rparr>,
      processor = Some ''openai/whisper-base'', model_loaded = True, device = ''cpu''\<rparr>"

text \<open>
  A fragment of the character database: the sharp s (223) has the title case \<open>Ss\<close>, the
  Kelvin sign (8490) the lower case \<open>k\<close>, the capital A with grave (192) the lower case
  224; the letters among these are cased, the apostrophe (39) and the dot (46) are
  case-ignorable, and the no-break space (160) is white space.
\<close>

definition example_unicode :: unicode where
  "example_unicode =
     \<lparr>to_lower_full = (\<lambda>c. if c = 8490 then [107] else if c = 192 then [224] else [c]),
      to_title_full = (\<lambda>c. if c = 223 then [83, 115] else if c = 224 then [192] else [c]),
      is_cased = (\<lambda>c. (65 \<le> c \<and> c \<le> 90) \<or> (97 \<le> c \<and> c \<le> 122)
                        \<or> c \<in> {192, 223, 224, 931, 962, 963, 8490}),
      is_case_ignorable = (\<lambda>c. c = 39 \<or> c = 46),
      is_space = (\<lambda>c. c = 160)\<rparr>"

text \<open>A world in which every call returns, except that the model cannot transcribe
  from a file.\<close>

definition example_world :: world where
  "example_world =
     \<lparr>unicode_data = example_unicode,
      model_hub = quiet_hub,
      cuda_is_available = False,
      named_temporary_file = (\<lambda>existing suffix. Inr (''/tmp/tmp0'' @ map char_of suffix)),
      file_write = (\<lambda>p bytes. None),
      os_unlink = (\<lambda>p. None),
      file_read = (\<lambda>p. None),
      sf_read = (\<lambda>bytes. Inr \<lparr>rate_hz = 44100, samples = Arr2 2 [[1, 3], [2, 4]]\<rparr>),
      resample_samples = (\<lambda>xs orig_sr target_sr. xs),
      processor_call = (\<lambda>a sampling_rate. Inr [0]),
      generate = (\<lambda>m input_features language. Inr [[1]]),
      batch_decode = (\<lambda>ids. Inr [ustr ''a red sneaker on a table'']),
      librosa_load = (\<lambda>bytes sr. Inr (Arr1 [2, 3])),
      sf_write = (\<lambda>a sr. Inr [7]),
      model_transcribe = (\<lambda>m src kw.
         case src of
           File p \<Rightarrow> Inl (Exn RuntimeError ''cannot open file'')
         | Array a \<Rightarrow> Inr [(''text'', JStr '' a red sneaker ''), (''language'', JStr ''en'')])\<rparr>"

definition all_methods_fail :: world where
  "all_methods_fail =
     example_world\<lparr>model_transcribe := (\<lambda>m src kw. Inl (Exn RuntimeError ''decoder failed''))\<rparr>"

definition generate_fails :: world where
  "generate_fails =
     example_world\<lparr>generate := (\<lambda>m input_features language. Inl (Exn RuntimeError ''out of memory''))\<rparr>"

definition hub_down :: world where
  "hub_down =
     example_world\<lparr>model_hub :=
       quiet_hub\<lparr>model_from_pretrained := (\<lambda>n. Some (Exn OSError ''network unreachable''))\<rparr>\<rparr>"

definition unlink_fails :: world where
  "unlink_fails = example_world\<lparr>os_unlink := (\<lambda>p. Some (Exn OSError ''Permission denied''))\<rparr>"

definition write_fails :: world where
  "write_fails =
     example_world\<lparr>file_write := (\<lambda>p bytes. Some (Exn OSError ''No space left on device''))\<rparr>"

definition example_upload :: upload where
  "example_upload = \<lparr>name = ustr ''memo.wav'', mime = ''audio/wav'', getvalue = [82, 73, 70, 70]\<rparr>"

definition text_upload :: upload where
  "text_upload = \<lparr>name = ustr ''notes.txt'', mime = ''text/plain'', getvalue = [104, 105]\<rparr>"

definition example_page :: page where
  "example_page =
     \<lparr>the_service = base_service, the_files = Map.empty,
      the_session = \<lparr>voice_original_prompt = [], voice_enhanced_prompt = [],
                      voice_transcription_info = [], voice_audio_uploaded = False,
                      original_prompt = None, enhanced_prompt = None\<rparr>,
      calls = [], shown = []\<rparr>"

definition example_network :: network where
  "example_network =
     \<lparr>post = (\<lambda>rq. Inr \<lparr>raise_for_status = None,
                          json_body = Inr (JObj [(''urls'', JArr [JStr ''http://cdn/out.png''])])\<rparr>),
      b64encode = (\<lambda>bytes. ''AAAA'')\<rparr>"

definition shapeless_result :: json where
  "shapeless_result =
     JObj [(''result'', JArr [JObj [(''foo'', JStr ''bar'')]]), (''result_url'', JStr ''http://y'')]"

section \<open>The prompt enhancer: properties\<close>

text \<open>
  Claim C4. The prompt \<open>a red sneaker on a table\<close> holds none of the keywords: the
  enhancer appends the qualifiers, turns the first letter into a capital and closes the
  sentence with a full stop, whatever the character database says outside ASCII.
\<close>

theorem enhance_red_sneaker:
  "enhance_voice_prompt ud (ustr ''a red sneaker on a table'') =
     ustr ''A red sneaker on a table, professional product photography, studio lighting, clean background.''"
  by code_simp

lemma punctuation_codes: "set (ustr ''.!?'') = {46, 33, 63}"
  by (simp add: ustr_def)

lemma punctuation_fixed:
  assumes "c \<in> set (ustr ''.!?'')"
  shows "title_full ud c = [c] \<and> lower_ucs4 ud before c after = [c]"
proof -
  from assms have "c = 46 \<or> c = 33 \<or> c = 63"
    unfolding punctuation_codes by blast
  then show ?thesis
    by (auto simp: title_full_def lower_ucs4_def lower_full_def ascii_upper_def ascii_lower_def)
qed

lemma last_do_lower:
  assumes "cs \<noteq> []" and "last cs \<in> set (ustr ''.!?'')"
  shows "do_lower ud before cs \<noteq> [] \<and> last (do_lower ud before cs) = last cs"
  using assms
proof (induction cs arbitrary: before)
  case Nil
  then show ?case by simp
next
  case (Cons c cs)
  show ?case
  proof (cases "cs = []")
    case True
    with Cons.prems punctuation_fixed [of c ud before "[]"] show ?thesis by simp
  next
    case False
    with Cons.prems have "last cs \<in> set (ustr ''.!?'')" by simp
    with False Cons.IH [of "before @ [c]"] show ?thesis by simp
  qed
qed

lemma last_capitalize:
  assumes "s \<noteq> []" and "last s \<in> set (ustr ''.!?'')"
  shows "capitalize ud s \<noteq> [] \<and> last (capitalize ud s) = last s"
proof (cases s)
  case Nil
  with assms show ?thesis by simp
next
  case (Cons c cs)
  show ?thesis
  proof (cases "cs = []")
    case True
    with Cons assms punctuation_fixed [of c ud "[]" "[]"] show ?thesis by simp
  next
    case False
    with Cons assms have "last cs \<in> set (ustr ''.!?'')" by simp
    with False last_do_lower [of cs ud "[c]"] Cons show ?thesis by simp
  qed
qed

text \<open>
  Claim C5. A prompt that already holds one of the keywords, in whatever case, and that
  ends in a full stop, an exclamation mark or a question mark gets no suffix, and no
  full stop either: the enhancer returns what \<open>capitalize\<close> makes of it. So the
  qualifiers are not appended a second time to a prompt that has them.
\<close>

theorem enhance_keeps_one_suffix:
  assumes "has_photography_keywords ud s"
    and "endswith_any s (ustr ''.!?'')"
  shows "enhance_voice_prompt ud s = capitalize ud s"
proof -
  from assms(2) have ne: "s \<noteq> []" and l: "last s \<in> set (ustr ''.!?'')"
    by (simp_all add: endswith_any_def)
  have "endswith_any (capitalize ud s) (ustr ''.!?'')"
    unfolding endswith_any_def using last_capitalize [OF ne l, of ud] l by simp
  with assms(1) ne show ?thesis
    by (simp add: enhance_voice_prompt_def)
qed

theorem enhance_keeps_one_suffix_witness:
  "has_photography_keywords example_unicode
     (ustr ''A red sneaker on a table, professional product photography, studio lighting, clean background.'')
   \<and> endswith_any
       (ustr ''A red sneaker on a table, professional product photography, studio lighting, clean background.'')
       (ustr ''.!?'')
   \<and> enhance_voice_prompt example_unicode
       (ustr ''A red sneaker on a table, professional product photography, studio lighting, clean background.'')
     = ustr ''A red sneaker on a table, professional product photography, studio lighting, clean background.''
   \<and> has_photography_keywords example_unicode ([223] @ ustr ''ig, professional.'')
   \<and> endswith_any ([223] @ ustr ''ig, professional.'') (ustr ''.!?'')
   \<and> enhance_voice_prompt example_unicode ([223] @ ustr ''ig, professional.'')
     = ustr ''Ssig, professional.''"
proof -
  have h1: "has_photography_keywords example_unicode
     (ustr ''A red sneaker on a table, professional product photography, studio lighting, clean background.'')"
    by code_simp
  have h2: "endswith_any
     (ustr ''A red sneaker on a table, professional product photography, studio lighting, clean background.'')
     (ustr ''.!?'')"
    by code_simp
  have c: "capitalize example_unicode
     (ustr ''A red sneaker on a table, professional product photography, studio lighting, clean background.'')
     = ustr ''A red sneaker on a table, professional product photography, studio lighting, clean background.''"
    by code_simp
  have h3: "has_photography_keywords example_unicode ([223] @ ustr ''ig, professional.'')"
    by code_simp
  have h4: "endswith_any ([223] @ ustr ''ig, professional.'') (ustr ''.!?'')"
    by code_simp
  have d: "capitalize example_unicode ([223] @ ustr ''ig, professional.'') = ustr ''Ssig, professional.''"
    by code_simp
  from enhance_keeps_one_suffix [OF h1 h2] enhance_keeps_one_suffix [OF h3 h4] c d h1 h2 h3 h4
  show ?thesis by simp
qed

section \<open>Validation: properties\<close>

lemma splitext_append: "fst (splitext p) @ snd (splitext p) = p"
  by (simp add: splitext_def Let_def)

lemma do_lower_append:
  "\<exists>front. do_lower ud before (xs @ ys) = front @ do_lower ud (before @ xs) ys"
proof (induction xs arbitrary: before)
  case Nil
  show ?case by simp
next
  case (Cons x xs)
  from Cons [of "before @ [x]"] obtain front
    where "do_lower ud (before @ [x]) (xs @ ys) = front @ do_lower ud (before @ x # xs) ys"
    by auto
  then have "do_lower ud before ((x # xs) @ ys) =
               (lower_ucs4 ud before x (xs @ ys) @ front) @ do_lower ud (before @ x # xs) ys"
    by simp
  then show ?case by blast
qed

lemma do_lower_without_sigma:
  "931 \<notin> set ys \<Longrightarrow> do_lower ud before ys = concat (map (lower_full ud) ys)"
  by (induction ys arbitrary: before) (auto simp: lower_ucs4_def)

lemma do_lower_with_sigma:
  "931 \<in> set ys \<Longrightarrow> 962 \<in> set (do_lower ud before ys) \<or> 963 \<in> set (do_lower ud before ys)"
  by (induction ys arbitrary: before) (auto simp: lower_ucs4_def)

lemma allowed_without_sigma:
  "e \<in> set allowed_extensions \<Longrightarrow> 962 \<notin> set (ustr e) \<and> 963 \<notin> set (ustr e)"
  by (auto simp: allowed_extensions_def ustr_def)

lemma extension_is_suffix:
  assumes "file_extension ud f \<in> set (map ustr allowed_extensions)"
  shows "suffix (file_extension ud f) (str_lower ud (name f))"
proof -
  let ?root = "fst (splitext (name f))" and ?ext = "snd (splitext (name f))"
  from assms obtain e where e: "e \<in> set allowed_extensions" and fe: "do_lower ud [] ?ext = ustr e"
    by (auto simp: file_extension_def str_lower_def)
  have "931 \<notin> set ?ext"
    using do_lower_with_sigma [of ?ext ud "[]"] allowed_without_sigma [OF e] fe by auto
  then have same: "do_lower ud ?root ?ext = do_lower ud [] ?ext"
    by (simp add: do_lower_without_sigma)
  obtain front where "do_lower ud [] (?root @ ?ext) = front @ do_lower ud ([] @ ?root) ?ext"
    using do_lower_append by blast
  with same have "str_lower ud (name f) = front @ file_extension ud f"
    by (simp add: splitext_append str_lower_def file_extension_def)
  then show ?thesis by (metis suffixI)
qed

lemma char_of_ustr: "map char_of (ustr s) = s"
  by (simp add: ustr_def comp_def)

lemma splitext_memo: "splitext (ustr ''memo.wav'') = (ustr ''memo'', ustr ''.wav'')"
  by code_simp

lemma splitext_notes: "splitext (ustr ''notes.txt'') = (ustr ''notes'', ustr ''.txt'')"
  by code_simp

lemma rejected_upload:
  assumes "uploaded_audio = None
     \<or> (\<exists>f. uploaded_audio = Some f
           \<and> (25 * 1024 * 1024 < length (getvalue f)
              \<or> file_extension ud f \<notin> set (map ustr allowed_extensions)
              \<or> (\<forall>e \<in> set allowed_extensions. \<not> suffix (ustr e) (str_lower ud (name f)))))"
  shows "fst (validate_audio_file ud uploaded_audio) = False"
proof (cases uploaded_audio)
  case None
  then show ?thesis by (simp add: validate_audio_file_def)
next
  case (Some f)
  have e: "file_extension ud f \<in> set (map ustr allowed_extensions) \<Longrightarrow>
          \<exists>e \<in> set allowed_extensions. suffix (ustr e) (str_lower ud (name f))"
    using extension_is_suffix [of ud f] by auto
  from assms Some
  have "25 * 1024 * 1024 < length (getvalue f)
     \<or> file_extension ud f \<notin> set (map ustr allowed_extensions)
     \<or> (\<forall>e \<in> set allowed_extensions. \<not> suffix (ustr e) (str_lower ud (name f)))"
    by simp
  with e
  have d: "25 * 1024 * 1024 < length (getvalue f)
     \<or> file_extension ud f \<notin> set (map ustr allowed_extensions)"
    by blast
  show ?thesis
  proof (cases "25 * 1024 * 1024 < length (getvalue f)")
    case True
    with Some show ?thesis by (simp add: validate_audio_file_def Let_def)
  next
    case False
    with d have "file_extension ud f \<notin> set (map ustr allowed_extensions)" by blast
    with Some False show ?thesis by (simp add: validate_audio_file_def Let_def)
  qed
qed

text \<open>
  Claim C3. An upload that is absent, that is larger than 25 MiB, or whose extension,
  in lower case, is not one of the five allowed ones (in particular a name that does not
  end in one of them) is rejected by the validation; the button then leaves the service,
  the files and the session as they were, and at most records the validation and shows
  its messages: the model is not loaded and nothing is transcribed.
\<close>

theorem invalid_upload_not_processed:
  assumes "uploaded_audio = None
     \<or> (\<exists>f. uploaded_audio = Some f
           \<and> (25 * 1024 * 1024 < length (getvalue f)
              \<or> file_extension (unicode_data w) f \<notin> set (map ustr allowed_extensions)
              \<or> (\<forall>e \<in> set allowed_extensions.
                    \<not> suffix (ustr e) (str_lower (unicode_data w) (name f)))))"
  shows "fst (validate_audio_file (unicode_data w) uploaded_audio) = False
     \<and> (transcribe_button w pg uploaded_audio clicked model_size language = pg
        \<or> (\<exists>ev. transcribe_button w pg uploaded_audio clicked model_size language =
                  pg\<lparr>calls := calls pg @ [CallValidate], shown := shown pg @ ev\<rparr>))"
proof -
  have r: "fst (validate_audio_file (unicode_data w) uploaded_audio) = False"
    using assms by (rule rejected_upload)
  show ?thesis
  proof (cases uploaded_audio)
    case None
    with r show ?thesis by (simp add: transcribe_button_def)
  next
    case (Some f)
    obtain ev where v: "validate_audio_file (unicode_data w) (Some f) = (False, ev)"
      using r Some by (cases "validate_audio_file (unicode_data w) (Some f)") auto
    show ?thesis
    proof (cases clicked)
      case False
      with Some r show ?thesis by (simp add: transcribe_button_def)
    next
      case True
      with Some v
      have "transcribe_button w pg uploaded_audio clicked model_size language =
              pg\<lparr>calls := calls pg @ [CallValidate],
                 shown := shown pg @
                   (ev @ [StError ''Invalid audio file. Please check the file format and size.''])\<rparr>"
        by (simp add: transcribe_button_def Let_def)
      with r show ?thesis by blast
    qed
  qed
qed

theorem invalid_upload_not_processed_witness:
  "file_extension (unicode_data example_world) text_upload \<notin> set (map ustr allowed_extensions)
   \<and> 25 * 1024 * 1024 < length (getvalue (example_upload\<lparr>getvalue := replicate 26214401 0\<rparr>))
   \<and> fst (validate_audio_file (unicode_data example_world) (Some text_upload)) = False
   \<and> fst (validate_audio_file (unicode_data example_world)
             (Some (example_upload\<lparr>getvalue := replicate 26214401 0\<rparr>))) = False
   \<and> the_service (transcribe_button example_world example_page (Some text_upload) True ''base'' None)
       = base_service
   \<and> calls (transcribe_button example_world example_page (Some text_upload) True ''base'' None)
       = [CallValidate]"
proof -
  have x: "str_lower example_unicode (ustr ''.txt'') = ustr ''.txt''"
    by code_simp
  have n: "ustr ''.txt'' \<notin> set (map ustr allowed_extensions)"
    by code_simp
  have u: "unicode_data example_world = example_unicode"
    by (simp add: example_world_def)
  have h1: "file_extension (unicode_data example_world) text_upload \<notin> set (map ustr allowed_extensions)"
    unfolding u using x n by (simp add: file_extension_def text_upload_def splitext_notes)
  have h2: "25 * 1024 * 1024 < length (getvalue (example_upload\<lparr>getvalue := replicate 26214401 0\<rparr>))"
    by simp
  have c1: "fst (validate_audio_file (unicode_data example_world) (Some text_upload)) = False"
    using invalid_upload_not_processed [of "Some text_upload" example_world example_page True
        "''base''" None] h1 by simp
  have c2: "fst (validate_audio_file (unicode_data example_world)
              (Some (example_upload\<lparr>getvalue := replicate 26214401 0\<rparr>))) = False"
    using invalid_upload_not_processed [of "Some (example_upload\<lparr>getvalue := replicate 26214401 0\<rparr>)"
        example_world example_page True "''base''" None] h2 by simp
  have s: "the_service example_page = base_service" and k: "calls example_page = []"
    by (simp_all add: example_page_def)
  have v: "validate_audio_file (unicode_data example_world) (Some text_upload) =
             (False, [StError (''Unsupported audio format. Please upload: ''
                                 @ join '', '' allowed_extensions)])"
    using h1 by (simp add: validate_audio_file_def text_upload_def)
  have b: "transcribe_button example_world example_page (Some text_upload) True ''base'' None =
             example_page\<lparr>calls := calls example_page @ [CallValidate],
                shown := shown example_page @
                  [StError (''Unsupported audio format. Please upload: ''
                             @ join '', '' allowed_extensions),
                   StError ''Invalid audio file. Please check the file format and size.'']\<rparr>"
    by (simp add: transcribe_button_def v Let_def)
  from h1 h2 c1 c2 s k b show ?thesis by simp
qed

section \<open>\<open>load_model\<close>: properties\<close>

text \<open>
  Claim C6, as the source has it. The test of \<open>load_model\<close> looks at the flag and at
  the model held, never at the size asked for. With a model resident, of whatever size,
  the call changes nothing and returns true. Without one, and when the hub and the
  device do not raise, it fetches the processor and the model of the size asked for,
  places the model on the device and sets the flag.
\<close>

theorem load_model_keyed_on_residency:
  "(model_loaded self \<and> model self \<noteq> None \<longrightarrow> load_model h self model_size = (True, self, []))
   \<and> (\<not> (model_loaded self \<and> model self \<noteq> None)
        \<and> processor_from_pretrained h (''openai/whisper-'' @ model_size) = None
        \<and> model_from_pretrained h (''openai/whisper-'' @ model_size) = None
        \<and> model_to h \<lparr>checkpoint = ''openai/whisper-'' @ model_size, placed_on = None\<rparr> (device self) = None
      \<longrightarrow> fst (load_model h self model_size) = True
          \<and> fst (snd (load_model h self model_size)) =
              self\<lparr>processor := Some (''openai/whisper-'' @ model_size),
                   model := Some \<lparr>checkpoint = ''openai/whisper-'' @ model_size,
                                  placed_on = Some (device self)\<rparr>,
                   model_loaded := True\<rparr>
          \<and> resident (fst (snd (load_model h self model_size))) model_size)"
  by (auto simp: load_model_def Let_def resident_def)

theorem load_model_keyed_on_residency_witness:
  "load_model quiet_hub base_service ''large'' = (True, base_service, [])
   \<and> resident (fst (snd (load_model quiet_hub (init_service False) ''large''))) ''large''"
  using load_model_keyed_on_residency [of base_service quiet_hub "''large''"]
    load_model_keyed_on_residency [of "init_service False" quiet_hub "''large''"]
  by (simp add: base_service_def quiet_hub_def init_service_def resident_def)

text \<open>
  With the base model resident, a call for the large one leaves the base model in
  place: no model of the size asked for is resident before the call, and none after.
\<close>

theorem load_model_size_counterexample:
  "\<not> resident base_service ''large''
   \<and> load_model quiet_hub base_service ''large'' = (True, base_service, [])
   \<and> \<not> resident (fst (snd (load_model quiet_hub base_service ''large''))) ''large''"
  by (simp add: resident_def base_service_def load_model_def)

section \<open>Reading and normalizing the audio: properties\<close>

lemma to_mono_samples:
  "soundfile_shape (samples a) \<Longrightarrow> to_mono a = a\<lparr>samples := Arr1 (channel_mean (samples a))\<rparr>"
  by (cases "samples a") (auto simp: to_mono_def soundfile_shape_def)

lemma read_and_normalize_decoded:
  assumes "fs tmp_path = Some bytes"
    and "sf_read w bytes = Inr decoded"
    and "soundfile_shape (samples decoded)"
    and "0 < rate_hz decoded"
  shows "read_and_normalize w fs tmp_path =
           Inr \<lparr>rate_hz = 16000,
                samples = Arr1 (if rate_hz decoded = 16000 then channel_mean (samples decoded)
                                else resample_samples w (channel_mean (samples decoded))
                                       (rate_hz decoded) 16000)\<rparr>"
proof -
  have m: "to_mono decoded = decoded\<lparr>samples := Arr1 (channel_mean (samples decoded))\<rparr>"
    using assms(3) by (rule to_mono_samples)
  show ?thesis
  proof (cases "rate_hz decoded = 16000")
    case True
    with assms(1,2) m show ?thesis
      by (simp add: read_and_normalize_def Let_def)
  next
    case False
    with assms(1,2,4) m show ?thesis
      by (simp add: read_and_normalize_def Let_def librosa_resample_def)
  qed
qed

text \<open>
  Claim C7. When the temporary file is written and the sound file library decodes it,
  to one channel or to several, at a positive rate, the signal that is handed to the
  model has one dimension and the rate 16000: each of its samples is the mean over the
  channels of a frame, resampled from the rate of the file when that is not 16000. The
  attempt is the run of the model on exactly this signal.
\<close>

theorem normalization_mono_16k:
  assumes "named_temporary_file w (dom fs) (snd (splitext (name audio_file))) = Inr tmp_path"
    and "file_write w tmp_path (getvalue audio_file) = None"
    and "sf_read w (getvalue audio_file) = Inr decoded"
    and "soundfile_shape (samples decoded)"
    and "0 < rate_hz decoded"
  shows "read_and_normalize w (fs(tmp_path \<mapsto> getvalue audio_file)) tmp_path =
           Inr \<lparr>rate_hz = 16000,
                samples = Arr1 (if rate_hz decoded = 16000 then channel_mean (samples decoded)
                                else resample_samples w (channel_mean (samples decoded))
                                       (rate_hz decoded) 16000)\<rparr>
       \<and> attempt w self fs audio_file language =
           run_model w self
             \<lparr>rate_hz = 16000,
              samples = Arr1 (if rate_hz decoded = 16000 then channel_mean (samples decoded)
                              else resample_samples w (channel_mean (samples decoded))
                                     (rate_hz decoded) 16000)\<rparr>
             language"
proof -
  have r: "read_and_normalize w (fs(tmp_path \<mapsto> getvalue audio_file)) tmp_path =
           Inr \<lparr>rate_hz = 16000,
                samples = Arr1 (if rate_hz decoded = 16000 then channel_mean (samples decoded)
                                else resample_samples w (channel_mean (samples decoded))
                                       (rate_hz decoded) 16000)\<rparr>"
    using assms(3,4,5) by (intro read_and_normalize_decoded) simp_all
  with assms(1,2) show ?thesis by (simp add: attempt_def)
qed

theorem normalization_mono_16k_witness:
  "named_temporary_file example_world (dom Map.empty) (snd (splitext (name example_upload)))
     = Inr ''/tmp/tmp0.wav''
   \<and> file_write example_world ''/tmp/tmp0.wav'' (getvalue example_upload) = None
   \<and> sf_read example_world (getvalue example_upload)
       = Inr \<lparr>rate_hz = 44100, samples = Arr2 2 [[1, 3], [2, 4]]\<rparr>
   \<and> soundfile_shape (Arr2 2 [[1, 3], [2, 4]])
   \<and> read_and_normalize example_world [''/tmp/tmp0.wav'' \<mapsto> getvalue example_upload] ''/tmp/tmp0.wav''
       = Inr \<lparr>rate_hz = 16000, samples = Arr1 [2, 3]\<rparr>"
proof -
  have h1: "named_temporary_file example_world (dom Map.empty) (snd (splitext (name example_upload)))
     = Inr ''/tmp/tmp0.wav''"
    by (simp add: example_world_def example_upload_def splitext_memo char_of_ustr)
  have h2: "file_write example_world ''/tmp/tmp0.wav'' (getvalue example_upload) = None"
    by (simp add: example_world_def)
  have h3: "sf_read example_world (getvalue example_upload)
       = Inr \<lparr>rate_hz = 44100, samples = Arr2 2 [[1, 3], [2, 4]]\<rparr>"
    by (simp add: example_world_def)
  have h4: "soundfile_shape (samples \<lparr>rate_hz = 44100, samples = Arr2 2 [[1, 3], [2, 4]]\<rparr>)"
    by (simp add: soundfile_shape_def)
  have h5: "0 < rate_hz \<lparr>rate_hz = 44100, samples = Arr2 2 [[1, 3], [2, 4]]\<rparr>"
    by simp
  have m: "resample_samples example_world (map mean [[1, 3], [2, 4]]) 44100 16000 = [2, 3]"
    by (simp add: example_world_def mean_def)
  from normalization_mono_16k [OF h1 h2 h3 h4 h5, of base_service None] m h1 h2 h3 h4
  show ?thesis by simp
qed

section \<open>The image URL: properties\<close>

text \<open>
  The specification's reading and the source part on a response whose \<open>result\<close> holds
  no URL while \<open>result_url\<close> does: the first shape that matches is the third and gives
  the URL, but the source has chosen \<open>result\<close>, finds nothing in it and reports the
  generation as failed.
\<close>

theorem first_match_counterexample:
  "first_match spec_shapes shapeless_result = Some (JStr ''http://y'')
   \<and> extract_image_url shapeless_result = Inr JNull
   \<and> show_generation shapeless_result (ustr ''a shoe'') 0 [] =
        ([], [StError ''Failed to generate image. Please try again.''])"
  by (simp add: shapeless_result_def spec_shapes_def shape_result_urls_def shape_result_url_def
        shape_key_def shape_key_list_def extract_image_url_def url_in_result_def url_of_entry_def
        show_generation_def)

lemma extract_image_url_object:
  "extract_image_url (JObj d) =
     (if d = [] then Inr JNull
      else case map_of d ''result'' of
             Some r \<Rightarrow> if truthy r then url_in_result r else url_outside_result d
           | None \<Rightarrow> url_outside_result d)"
  by (simp add: extract_image_url_def)

lemma shown_when_no_url:
  "extract_image_url r = Inr JNull \<Longrightarrow>
     show_generation r p now imgs = (imgs, [StError ''Failed to generate image. Please try again.''])"
  by (simp add: show_generation_def)

text \<open>
  Claim C8, as the source has it. The extraction chooses by the top-level key: a
  \<open>result\<close> that is true in Python's sense decides alone, whatever the other keys hold,
  and inside its first element a non-empty list \<open>urls\<close> gives its first member before
  \<open>url\<close> is looked at; without such a \<open>result\<close> the keys \<open>result_url\<close>, \<open>url\<close> and
  a non-empty list \<open>result_urls\<close> are taken in this order; with none of them there is no
  URL and the page reports that the generation failed.
\<close>

theorem extraction_by_top_level_key:
  "(map_of d ''result'' = Some r \<and> truthy r \<longrightarrow>
      extract_image_url (JObj d) = extract_image_url (JObj [(''result'', r)]))
   \<and> (map_of d ''result'' = Some (JArr (JObj entry # rest))
        \<and> map_of entry ''urls'' = Some (JArr (u # us)) \<longrightarrow>
      extract_image_url (JObj d) = Inr u)
   \<and> (map_of d ''result'' = Some (JArr (JObj entry # rest))
        \<and> (map_of entry ''urls'' = None \<or> (\<exists>v. map_of entry ''urls'' = Some v \<and> \<not> truthy v))
        \<and> map_of entry ''url'' = Some u \<longrightarrow>
      extract_image_url (JObj d) = Inr u)
   \<and> ((map_of d ''result'' = None \<or> (\<exists>v. map_of d ''result'' = Some v \<and> \<not> truthy v)) \<longrightarrow>
        (map_of d ''result_url'' = Some u \<longrightarrow> extract_image_url (JObj d) = Inr u)
        \<and> (map_of d ''result_url'' = None \<and> map_of d ''url'' = Some u \<longrightarrow>
             extract_image_url (JObj d) = Inr u)
        \<and> (map_of d ''result_url'' = None \<and> map_of d ''url'' = None
             \<and> map_of d ''result_urls'' = Some (JArr (u # us)) \<longrightarrow>
             extract_image_url (JObj d) = Inr u)
        \<and> (map_of d ''result_url'' = None \<and> map_of d ''url'' = None
             \<and> map_of d ''result_urls'' = None \<longrightarrow>
             extract_image_url (JObj d) = Inr JNull
             \<and> show_generation (JObj d) p now imgs =
                 (imgs, [StError ''Failed to generate image. Please try again.''])))"
proof -
  have a: "extract_image_url (JObj d) = extract_image_url (JObj [(''result'', r)])"
    if "map_of d ''result'' = Some r" and "truthy r"
    using that by (auto simp: extract_image_url_object)
  have b: "extract_image_url (JObj d) = Inr u"
    if "map_of d ''result'' = Some (JArr (JObj entry # rest))"
      and "map_of entry ''urls'' = Some (JArr (u # us))"
    using that by (auto simp: extract_image_url_object url_in_result_def url_of_entry_def)
  have c: "extract_image_url (JObj d) = Inr u"
    if "map_of d ''result'' = Some (JArr (JObj entry # rest))"
      and "map_of entry ''urls'' = None \<or> (\<exists>v. map_of entry ''urls'' = Some v \<and> \<not> truthy v)"
      and "map_of entry ''url'' = Some u"
    using that by (auto simp: extract_image_url_object url_in_result_def url_of_entry_def)
  have o: "extract_image_url (JObj d) = (if d = [] then Inr JNull else url_outside_result d)"
    if "map_of d ''result'' = None \<or> (\<exists>v. map_of d ''result'' = Some v \<and> \<not> truthy v)"
    using that by (auto simp: extract_image_url_object)
  have d1: "extract_image_url (JObj d) = Inr u"
    if "map_of d ''result'' = None \<or> (\<exists>v. map_of d ''result'' = Some v \<and> \<not> truthy v)"
      and "map_of d ''result_url'' = Some u"
    using that o by (auto simp: url_outside_result_def)
  have d2: "extract_image_url (JObj d) = Inr u"
    if "map_of d ''result'' = None \<or> (\<exists>v. map_of d ''result'' = Some v \<and> \<not> truthy v)"
      and "map_of d ''result_url'' = None" and "map_of d ''url'' = Some u"
    using that o by (auto simp: url_outside_result_def)
  have d3: "extract_image_url (JObj d) = Inr u"
    if "map_of d ''result'' = None \<or> (\<exists>v. map_of d ''result'' = Some v \<and> \<not> truthy v)"
      and "map_of d ''result_url'' = None" and "map_of d ''url'' = None"
      and "map_of d ''result_urls'' = Some (JArr (u # us))"
    using that o by (auto simp: url_outside_result_def)
  have d4: "extract_image_url (JObj d) = Inr JNull"
    if "map_of d ''result'' = None \<or> (\<exists>v. map_of d ''result'' = Some v \<and> \<not> truthy v)"
      and "map_of d ''result_url'' = None" and "map_of d ''url'' = None"
      and "map_of d ''result_urls'' = None"
    using that o by (auto simp: url_outside_result_def)
  from a b c d1 d2 d3 d4 shown_when_no_url [of "JObj d" p now imgs] show ?thesis
    by blast
qed

theorem extraction_by_top_level_key_witness:
  "extract_image_url (JObj [(''result'', JArr [JObj [(''urls'', JArr [JStr ''http://x/img.png''])]])])
     = Inr (JStr ''http://x/img.png'')
   \<and> extract_image_url (JObj [(''result_url'', JStr ''http://y'')]) = Inr (JStr ''http://y'')
   \<and> extract_image_url (JObj [(''foo'', JStr ''bar'')]) = Inr JNull
   \<and> show_generation (JObj [(''foo'', JStr ''bar'')]) (ustr ''a shoe'') 0 [] =
        ([], [StError ''Failed to generate image. Please try again.''])"
  using
    extraction_by_top_level_key
      [where d = "[(''result'', JArr [JObj [(''urls'', JArr [JStr ''http://x/img.png''])]])]"
         and entry = "[(''urls'', JArr [JStr ''http://x/img.png''])]" and rest = "[]"
         and u = "JStr ''http://x/img.png''" and us = "[]"]
    extraction_by_top_level_key
      [where d = "[(''result_url'', JStr ''http://y'')]" and u = "JStr ''http://y''"]
    extraction_by_top_level_key
      [where d = "[(''foo'', JStr ''bar'')]" and p = "ustr ''a shoe''" and now = 0 and imgs = "[]"]
  by simp

section \<open>The background removal: properties\<close>

lemma request_data_Some:
  "request_data net image_data image_url cm = Some d \<Longrightarrow> image_data \<noteq> None \<or> image_url \<noteq> None"
  by (auto simp: request_data_def Let_def split: if_splits)

text \<open>
  Claim C10. Called with neither image bytes nor an image URL, \<open>remove_background\<close>
  raises the \<open>ValueError\<close> and has posted nothing; whenever it has posted a request,
  one of the two was given.
\<close>

theorem remove_background_needs_an_image:
  "remove_background net api_key None None content_moderation =
     (Inl (Exn ValueError ''Either image_data or image_url must be provided''), [])
   \<and> (snd (remove_background net api_key image_data image_url content_moderation) \<noteq> []
        \<longrightarrow> image_data \<noteq> None \<or> image_url \<noteq> None)"
proof -
  have a: "remove_background net api_key None None content_moderation =
     (Inl (Exn ValueError ''Either image_data or image_url must be provided''), [])"
    by (simp add: remove_background_def request_data_def)
  have b: "image_data \<noteq> None \<or> image_url \<noteq> None"
    if "snd (remove_background net api_key image_data image_url content_moderation) \<noteq> []"
  proof (cases "request_data net image_data image_url content_moderation")
    case None
    with that show ?thesis by (simp add: remove_background_def)
  next
    case (Some d)
    then show ?thesis by (rule request_data_Some)
  qed
  from a b show ?thesis by blast
qed

theorem remove_background_needs_an_image_witness:
  "snd (remove_background example_network ''key'' None (Some ''http://shop/shoe.png'') False) \<noteq> []
   \<and> remove_background example_network ''key'' None (Some ''http://shop/shoe.png'') False
       = (Inr (JObj [(''result_url'', JStr ''http://cdn/out.png'')]),
          [\<lparr>address = ''https://engine.prod.bria-api.com/v1/background/remove'',
            body = [(''content_moderation'', JBool False), (''image_url'', JStr ''http://shop/shoe.png'')]\<rparr>])
   \<and> remove_background example_network ''key'' None None False =
       (Inl (Exn ValueError ''Either image_data or image_url must be provided''), [])"
  using remove_background_needs_an_image
    [where net = example_network and api_key = "''key''" and content_moderation = False
       and image_data = None and image_url = "Some ''http://shop/shoe.png''"]
  by (simp add: remove_background_def request_data_def post_and_decode_def example_network_def
        handle_formats_def)

section \<open>\<open>transcribe_audio\<close>: what runs\<close>

lemma first_try_result:
  "fst (first_try w self fs audio_file language) =
     Some (case attempt w self fs audio_file language of
             Inr transcription \<Rightarrow> (transcription, transcription_info self language)
           | Inl e \<Rightarrow> transcription_error e)"
  by (simp add: first_try_def attempt_def Let_def split: sum.splits option.splits)

lemma first_try_returns: "\<exists>r fs'. first_try w self fs audio_file language = (Some r, fs')"
  using first_try_result [of w self fs audio_file language]
  by (cases "first_try w self fs audio_file language") auto

lemma loading_cases:
  "\<exists>ok self' ev.
     (if \<not> model_loaded self then load_model (model_hub w) self ''base'' else (True, self, []))
       = (ok, self', ev)
     \<and> load_ok w self = ok \<and> (ok \<longrightarrow> loaded_service w self = self')"
proof -
  obtain ok self' ev where l:
    "(if \<not> model_loaded self then load_model (model_hub w) self ''base'' else (True, self, []))
       = (ok, self', ev)"
    by (metis prod_cases3)
  then have "load_ok w self = ok" and "ok \<longrightarrow> loaded_service w self = self'"
    by (auto simp: loaded_service_def load_ok_def split: if_splits)
  with l show ?thesis by blast
qed

text \<open>The first \<open>try\<close> statement returns on every path, so \<open>transcribe_audio\<close> is the
  loading followed by that statement.\<close>

lemma transcribe_audio_live:
  "fst (transcribe_audio w self fs audio_file language) =
     (if \<not> load_ok w self then ([], [(''error'', JStr ''Failed to load Whisper model'')])
      else case attempt w (loaded_service w self) fs audio_file language of
             Inr transcription \<Rightarrow> (transcription, transcription_info (loaded_service w self) language)
           | Inl e \<Rightarrow> transcription_error e)"
proof -
  obtain ok self' ev where l:
    "(if \<not> model_loaded self then load_model (model_hub w) self ''base'' else (True, self, []))
       = (ok, self', ev)"
    and ok: "load_ok w self = ok" and ls: "ok \<longrightarrow> loaded_service w self = self'"
    using loading_cases [of self w] by blast
  obtain r fs' where f: "first_try w self' fs audio_file language = (Some r, fs')"
    using first_try_returns by blast
  show ?thesis
  proof (cases ok)
    case False
    with l ok show ?thesis by (simp add: transcribe_audio_def)
  next
    case True
    with ls have ls': "loaded_service w self = self'" by simp
    from True l f first_try_result [of w self' fs audio_file language] show ?thesis
      unfolding ls' ok by (simp add: transcribe_audio_def)
  qed
qed

text \<open>The statements after the first \<open>except\<close>, and with them the three methods, are
  never reached: no call of \<open>transcribe_audio\<close> records an attempt.\<close>

lemma cascade_never_reached:
  "fst (snd (snd (snd (transcribe_audio w self fs audio_file language)))) = []"
proof -
  obtain ok self' ev where l:
    "(if \<not> model_loaded self then load_model (model_hub w) self ''base'' else (True, self, []))
       = (ok, self', ev)"
    by (metis prod_cases3)
  obtain r fs' where f: "first_try w self' fs audio_file language = (Some r, fs')"
    using first_try_returns by blast
  show ?thesis
    unfolding transcribe_audio_def l using f by simp
qed

lemma transcribe_audio_files:
  "fst (snd (snd (transcribe_audio w self fs audio_file language))) =
     (if load_ok w self then snd (first_try w (loaded_service w self) fs audio_file language) else fs)"
proof -
  obtain ok self' ev where l:
    "(if \<not> model_loaded self then load_model (model_hub w) self ''base'' else (True, self, []))
       = (ok, self', ev)"
    and ok: "load_ok w self = ok" and ls: "ok \<longrightarrow> loaded_service w self = self'"
    using loading_cases [of self w] by blast
  obtain r fs' where f: "first_try w self' fs audio_file language = (Some r, fs')"
    using first_try_returns by blast
  show ?thesis
    unfolding transcribe_audio_def l using f ls ok by simp
qed

lemma first_try_files:
  assumes "named_temporary_file w (dom fs) (snd (splitext (name audio_file))) = Inr p"
    and "file_write w p (getvalue audio_file) = None"
  shows "snd (first_try w self fs audio_file language) =
           (case os_unlink w p of None \<Rightarrow> fs(p := None) | Some e \<Rightarrow> fs(p \<mapsto> getvalue audio_file))"
  using assms by (simp add: first_try_def Let_def split: sum.splits option.splits)

section \<open>Temporary files: properties\<close>

text \<open>
  Claim C9, as the source has it. When the temporary file of \<open>transcribe_audio\<close> has
  been created and written and its unlink does not raise, the file is gone when the call
  returns and no other file has changed, whether the transcription succeeded or not.
  \<open>SpeechToTextService.transcribe\<close> likewise leaves no file at its path when the removal
  does not raise.
\<close>

theorem temp_file_removed_when_unlink_succeeds:
  "(load_ok w self
      \<and> named_temporary_file w (dom fs) (snd (splitext (name audio_file))) = Inr p
      \<and> file_write w p (getvalue audio_file) = None
      \<and> os_unlink w p = None
     \<longrightarrow> fst (snd (snd (transcribe_audio w self fs audio_file language))) = fs(p := None))
   \<and> (audio_path \<in> dom fs \<and> os_unlink w audio_path = None
     \<longrightarrow> snd (stt_transcribe w stt_model fs audio_path) = fs(audio_path := None))"
proof -
  have a: "fst (snd (snd (transcribe_audio w self fs audio_file language))) = fs(p := None)"
    if "load_ok w self"
      and "named_temporary_file w (dom fs) (snd (splitext (name audio_file))) = Inr p"
      and "file_write w p (getvalue audio_file) = None"
      and "os_unlink w p = None"
    using that first_try_files [of w fs audio_file p "loaded_service w self" language]
    by (simp add: transcribe_audio_files)
  have b: "snd (stt_transcribe w stt_model fs audio_path) = fs(audio_path := None)"
    if "audio_path \<in> dom fs" and "os_unlink w audio_path = None"
    using that by (simp add: stt_transcribe_def Let_def split: sum.splits)
  from a b show ?thesis by blast
qed

theorem temp_file_removed_when_unlink_succeeds_witness:
  "load_ok example_world base_service
   \<and> named_temporary_file example_world (dom [''/tmp/upload.wav'' \<mapsto> [1, 2]])
        (snd (splitext (name example_upload))) = Inr ''/tmp/tmp0.wav''
   \<and> file_write example_world ''/tmp/tmp0.wav'' (getvalue example_upload) = None
   \<and> os_unlink example_world ''/tmp/tmp0.wav'' = None
   \<and> fst (snd (snd (transcribe_audio example_world base_service [''/tmp/upload.wav'' \<mapsto> [1, 2]]
                       example_upload None))) = [''/tmp/upload.wav'' \<mapsto> [1, 2]]
   \<and> ''/tmp/upload.wav'' \<in> dom [''/tmp/upload.wav'' \<mapsto> [1 :: nat, 2]]
   \<and> snd (stt_transcribe example_world \<lparr>checkpoint = ''base'', placed_on = Some ''cpu''\<rparr>
             [''/tmp/upload.wav'' \<mapsto> [1, 2]] ''/tmp/upload.wav'') = Map.empty"
  using temp_file_removed_when_unlink_succeeds [where w = example_world and self = base_service
      and fs = "[''/tmp/upload.wav'' \<mapsto> [1, 2]]" and audio_file = example_upload
      and p = "''/tmp/tmp0.wav''" and language = None and audio_path = "''/tmp/upload.wav''"
      and stt_model = "\<lparr>checkpoint = ''base'', placed_on = Some ''cpu''\<rparr>"]
  by (simp add: load_ok_def base_service_def example_world_def example_upload_def splitext_memo char_of_ustr)

text \<open>
  Two requests after which the temporary file is still there: one whose unlink raises,
  which the \<open>finally\<close> clause ignores while the transcription is returned, and one whose
  writing raises, before the inner \<open>try\<close> with the \<open>finally\<close> clause is entered.
\<close>

theorem temp_file_left_counterexample:
  "''/tmp/tmp0.wav'' \<in> dom (fst (snd (snd
       (transcribe_audio unlink_fails base_service Map.empty example_upload None))))
   \<and> fst (transcribe_audio unlink_fails base_service Map.empty example_upload None)
       = (ustr ''a red sneaker on a table'', transcription_info base_service None)
   \<and> ''/tmp/tmp0.wav'' \<in> dom (fst (snd (snd
       (transcribe_audio write_fails base_service Map.empty example_upload None))))"
  by (simp add: transcribe_audio_def first_try_def unlink_fails_def write_fails_def example_world_def
      base_service_def example_upload_def splitext_memo char_of_ustr read_and_normalize_def run_model_def
      to_mono_def librosa_resample_def py_or_def Let_def)

section \<open>The cascade of methods: properties\<close>

text \<open>
  The cascade taken by itself, called with a path and an array: when the method on the
  file raises, the attempts are the file, the array and, only when the array raises too,
  the CPU. No call of \<open>transcribe_audio\<close> gets as far as the cascade
  (\<open>cascade_never_reached\<close>).
\<close>

lemma cascade_attempts:
  assumes "transcribe_call w self (File tmp_file_path)
             \<lparr>kw_language = py_or language, kw_verbose = False, kw_word_timestamps = None\<rparr>
           = Inl file_error"
  shows "fst (snd (snd (multi_method_transcription w self tmp_file_path (Some a) language))) =
           (case transcribe_call w self (Array a)
                   \<lparr>kw_language = py_or language, kw_verbose = False, kw_word_timestamps = None\<rparr> of
              Inr result \<Rightarrow> [FileAttempt, ArrayAttempt]
            | Inl array_error \<Rightarrow> [FileAttempt, ArrayAttempt, CpuAttempt])"
  using assms
  by (simp add: multi_method_transcription_def array_method_def Let_def split: sum.splits prod.splits)


lemma cascade_error_is_exhaustion:
  assumes "fst (multi_method_transcription w self p arr language) = Inl e"
  shows "fst (cpu_method w self p language) = Inl e
     \<and> (\<exists>e1. transcribe_call w self (File p)
           \<lparr>kw_language = py_or language, kw_verbose = False, kw_word_timestamps = None\<rparr> = Inl e1)
     \<and> (\<forall>a. arr = Some a \<longrightarrow>
          (\<exists>e2. transcribe_call w self (Array a)
            \<lparr>kw_language = py_or language, kw_verbose = False, kw_word_timestamps = None\<rparr> = Inl e2))"
  using assms
  by (auto simp: multi_method_transcription_def array_method_def Let_def
      split: sum.splits prod.splits option.splits)

lemma second_try_cascade_failure:
  assumes "named_temporary_file w (dom fs) (ustr ''.wav'') = Inr p0"
    and "file_write w p0 (getvalue audio_file) = None"
    and "getvalue audio_file \<noteq> []"
    and "preprocess w (fs(p0 \<mapsto> getvalue audio_file)) p0 (getvalue audio_file) = (p, arr, fs1, ev0)"
    and "multi_method_transcription w self p arr language = (Inl e, self', tr, ev)"
  shows "second_try w self fs audio_file language =
           (([], []), self', cleanup w fs1 [Some p0, Some p], tr,
            ev0 @ ev @ [StError (''Error transcribing audio: '' @ str e)])"
  using assms by (simp add: second_try_def Let_def)

section \<open>Failed transcriptions: properties\<close>

text \<open>
  Claim C2. A request whose loading fails, or whose attempt raises at any step, makes
  \<open>transcribe_audio\<close> return the empty text together with one entry \<open>error\<close>
  that carries the message. In the cascade an exception comes out only when the file
  method, the array method where there is an array, and the CPU method have all raised;
  it is the exception of the last one, and the statements around the cascade then return
  the empty text and an empty dictionary and show the error on the page.
\<close>

theorem exhausted_transcription_returns_empty_text:
  "(\<not> load_ok w self \<longrightarrow>
      fst (transcribe_audio w self fs audio_file language) =
        ([], [(''error'', JStr ''Failed to load Whisper model'')]))
   \<and> (load_ok w self \<and> attempt w (loaded_service w self) fs audio_file language = Inl e \<longrightarrow>
      fst (transcribe_audio w self fs audio_file language) =
        ([], [(''error'', JStr (''Error during transcription: '' @ str e))]))
   \<and> (fst (multi_method_transcription w self p arr language) = Inl e \<longrightarrow>
      fst (cpu_method w self p language) = Inl e
      \<and> (\<exists>e1. transcribe_call w self (File p)
            \<lparr>kw_language = py_or language, kw_verbose = False, kw_word_timestamps = None\<rparr> = Inl e1)
      \<and> (\<forall>a. arr = Some a \<longrightarrow>
           (\<exists>e2. transcribe_call w self (Array a)
             \<lparr>kw_language = py_or language, kw_verbose = False, kw_word_timestamps = None\<rparr> = Inl e2)))
   \<and> (named_temporary_file w (dom fs) (ustr ''.wav'') = Inr original_tmp_path
        \<and> file_write w original_tmp_path (getvalue audio_file) = None
        \<and> getvalue audio_file \<noteq> []
        \<and> preprocess w (fs(original_tmp_path \<mapsto> getvalue audio_file)) original_tmp_path (getvalue audio_file) = (p, arr, fs', warned)
        \<and> fst (multi_method_transcription w self p arr language) = Inl e \<longrightarrow>
      fst (second_try w self fs audio_file language) = ([], [])
      \<and> last (snd (snd (snd (snd (second_try w self fs audio_file language))))) =
          StError (''Error transcribing audio: '' @ str e))"
proof -
  have a: "fst (transcribe_audio w self fs audio_file language) =
        ([], [(''error'', JStr ''Failed to load Whisper model'')])"
    if "\<not> load_ok w self"
    using that by (simp add: transcribe_audio_live)
  have b: "fst (transcribe_audio w self fs audio_file language) =
        ([], [(''error'', JStr (''Error during transcription: '' @ str e))])"
    if "load_ok w self" and "attempt w (loaded_service w self) fs audio_file language = Inl e"
    using that by (simp add: transcribe_audio_live transcription_error_def)
  have c: "fst (second_try w self fs audio_file language) = ([], [])
      \<and> last (snd (snd (snd (snd (second_try w self fs audio_file language))))) =
          StError (''Error transcribing audio: '' @ str e)"
    if h: "named_temporary_file w (dom fs) (ustr ''.wav'') = Inr original_tmp_path"
      "file_write w original_tmp_path (getvalue audio_file) = None"
      "getvalue audio_file \<noteq> []"
      "preprocess w (fs(original_tmp_path \<mapsto> getvalue audio_file)) original_tmp_path (getvalue audio_file) = (p, arr, fs', warned)"
      and m: "fst (multi_method_transcription w self p arr language) = Inl e"
  proof -
    obtain self' tr ev where
      "multi_method_transcription w self p arr language = (Inl e, self', tr, ev)"
      using m by (cases "multi_method_transcription w self p arr language") auto
    from second_try_cascade_failure [OF h this] show ?thesis by simp
  qed
  from a b c cascade_error_is_exhaustion [of w self p arr language e] show ?thesis
    by blast
qed

theorem exhausted_transcription_returns_empty_text_witness:
  "\<not> load_ok hub_down (init_service False)
   \<and> fst (transcribe_audio hub_down (init_service False) Map.empty example_upload None) =
        ([], [(''error'', JStr ''Failed to load Whisper model'')])
   \<and> load_ok generate_fails base_service
   \<and> attempt generate_fails (loaded_service generate_fails base_service) Map.empty example_upload None
       = Inl (Exn RuntimeError ''out of memory'')
   \<and> fst (transcribe_audio generate_fails base_service Map.empty example_upload None) =
        ([], [(''error'', JStr ''Error during transcription: out of memory'')])
   \<and> fst (multi_method_transcription all_methods_fail base_service ''/tmp/tmp0.wav''
            (Some (Arr1 [2, 3])) None) = Inl (Exn RuntimeError ''decoder failed'')
   \<and> fst (second_try all_methods_fail base_service Map.empty example_upload None) = ([], [])
   \<and> last (snd (snd (snd (snd (second_try all_methods_fail base_service Map.empty example_upload None)))))
       = StError ''Error transcribing audio: decoder failed''"
proof -
  have h1: "\<not> load_ok hub_down (init_service False)"
    by (simp add: load_ok_def hub_down_def example_world_def quiet_hub_def init_service_def
          load_model_def load_error_def)
  have h2: "load_ok generate_fails base_service"
    by (simp add: load_ok_def base_service_def)
  have ls: "loaded_service generate_fails base_service = base_service"
    by (simp add: loaded_service_def base_service_def)
  have h3: "attempt generate_fails (loaded_service generate_fails base_service) Map.empty
              example_upload None = Inl (Exn RuntimeError ''out of memory'')"
    unfolding ls
    by (simp add: attempt_def generate_fails_def example_world_def base_service_def
          example_upload_def splitext_memo char_of_ustr read_and_normalize_def run_model_def to_mono_def
          librosa_resample_def py_or_def Let_def)
  have h4: "named_temporary_file all_methods_fail (dom Map.empty) (ustr ''.wav'') = Inr ''/tmp/tmp0.wav''"
    by (simp add: all_methods_fail_def example_world_def char_of_ustr)
  have h5: "file_write all_methods_fail ''/tmp/tmp0.wav'' (getvalue example_upload) = None"
    by (simp add: all_methods_fail_def example_world_def)
  have h6: "getvalue example_upload \<noteq> []"
    by (simp add: example_upload_def)
  have h7: "preprocess all_methods_fail (Map.empty(''/tmp/tmp0.wav'' \<mapsto> getvalue example_upload))
              ''/tmp/tmp0.wav'' (getvalue example_upload)
            = (''/tmp/tmp0.wav'', Some (Arr1 [2, 3]),
               [''/tmp/tmp0.wav'' \<mapsto> [7]], [])"
    by (simp add: preprocess_def all_methods_fail_def example_world_def char_of_ustr Let_def)
  have h8: "fst (multi_method_transcription all_methods_fail base_service ''/tmp/tmp0.wav''
              (Some (Arr1 [2, 3])) None) = Inl (Exn RuntimeError ''decoder failed'')"
    by (simp add: multi_method_transcription_def array_method_def cpu_method_def transcribe_call_def
          all_methods_fail_def example_world_def base_service_def Let_def)
  from exhausted_transcription_returns_empty_text
         [where w = hub_down and self = "init_service False" and fs = Map.empty
            and audio_file = example_upload and language = None] h1
  have c1: "fst (transcribe_audio hub_down (init_service False) Map.empty example_upload None) =
        ([], [(''error'', JStr ''Failed to load Whisper model'')])"
    by blast
  from exhausted_transcription_returns_empty_text
         [where w = generate_fails and self = base_service and fs = Map.empty
            and audio_file = example_upload and language = None
            and e = "Exn RuntimeError ''out of memory''"] h2 h3
  have c2: "fst (transcribe_audio generate_fails base_service Map.empty example_upload None) =
        ([], [(''error'', JStr (''Error during transcription: '' @ str (Exn RuntimeError ''out of memory'')))])"
    by blast
  from exhausted_transcription_returns_empty_text
         [where w = all_methods_fail and self = base_service and fs = Map.empty
            and audio_file = example_upload and language = None
            and e = "Exn RuntimeError ''decoder failed''" and original_tmp_path = "''/tmp/tmp0.wav''"
            and p = "''/tmp/tmp0.wav''" and arr = "Some (Arr1 [2, 3])"
            and fs' = "[''/tmp/tmp0.wav'' \<mapsto> [7]]" and warned = "[]"] h4 h5 h6 h7 h8
  have c3: "fst (second_try all_methods_fail base_service Map.empty example_upload None) = ([], [])
      \<and> last (snd (snd (snd (snd (second_try all_methods_fail base_service Map.empty example_upload None))))) =
          StError (''Error transcribing audio: '' @ str (Exn RuntimeError ''decoder failed''))"
    by blast
  from h1 h2 h3 h8 c1 c2 c3 show ?thesis by simp
qed

end
